theory Spec2Isabelle
  imports Main "HOL-Library.Word"
begin

unbundle bit_operations_syntax

section \<open>Python values used by dbsake.core.mysql.frm.mysqltypes\<close>

text \<open>
  Bytes are 8-bit words. A Python text string is a sequence of Unicode code points, so
  that the replacement character U+FFFD of a permissive decode has a value; a literal of
  the source is written \<open>lit ''...''\<close>. Python integers are unbounded: \<open>int\<close>.
\<close>

type_synonym byte = "8 word"
type_synonym bytes = "byte list"
type_synonym str = "nat list"

abbreviation lit :: "string \<Rightarrow> str" where
  "lit s \<equiv> map of_char s"

datatype error =
    LookupError
  | NotImplementedError
  | TypeError
  | ValueError
  | IndexError
  | KeyError
  | ZeroDivisionError
  | StructError
  | UnicodeDecodeError
  | BufferExhausted
  | ExternalError
  | FloatResult

text \<open>\<open>str(n)\<close> for a Python integer.\<close>

fun digits10 :: "nat \<Rightarrow> str" where
  "digits10 n = (if n < 10 then [48 + n] else digits10 (n div 10) @ [48 + n mod 10])"

declare digits10.simps [simp del]

definition str_int :: "int \<Rightarrow> str" where
  "str_int i = (if i < 0 then 45 # digits10 (nat (- i)) else digits10 (nat i))"

text \<open>\<open>"'%s'" % s\<close>: the value between two apostrophes (code point 39).\<close>

definition quote :: "str \<Rightarrow> str" where
  "quote s = 39 # s @ [39]"

text \<open>\<open>xs[i]\<close>: a negative index counts from the end; out of range raises IndexError.\<close>

definition py_index :: "'a list \<Rightarrow> int \<Rightarrow> 'a option" where
  "py_index xs i =
     (let n = int (length xs); j = (if i < 0 then n + i else i)
      in if 0 \<le> j \<and> j < n then Some (xs ! nat j) else None)"

text \<open>\<open>xs[:i]\<close> and \<open>xs[i:]\<close>, with Python's clamping of the bound.\<close>

definition py_bound :: "'a list \<Rightarrow> int \<Rightarrow> nat" where
  "py_bound xs i = (if i < 0 then nat (int (length xs) + i) else nat i)"

definition slice_to :: "'a list \<Rightarrow> int \<Rightarrow> 'a list" where
  "slice_to xs i = take (py_bound xs i) xs"

definition slice_from :: "'a list \<Rightarrow> int \<Rightarrow> 'a list" where
  "slice_from xs i = drop (py_bound xs i) xs"

text \<open>
  \<open>s.zfill(width)\<close>: zeros on the left up to the width, after a leading sign.
  \<open>'%0wd' % n\<close> and \<open>'{:0w}'.format(n)\<close> of an integer give \<open>str(n).zfill(w)\<close>.
\<close>

definition zfill :: "int \<Rightarrow> str \<Rightarrow> str" where
  "zfill width s =
     (let pad = replicate (nat (width - int (length s))) (48::nat)
      in case s of
           c # cs \<Rightarrow> if c = 43 \<or> c = 45 then c # pad @ cs else pad @ s
         | [] \<Rightarrow> pad)"

text \<open>\<open>'{:w}'.format(n)\<close> of an integer: right-aligned, padded with spaces.\<close>

definition rjust_int :: "nat \<Rightarrow> int \<Rightarrow> str" where
  "rjust_int width n = replicate (width - length (str_int n)) (32::nat) @ str_int n"

definition lstrip :: "nat \<Rightarrow> str \<Rightarrow> str" where
  "lstrip c s = dropWhile (\<lambda>x. x = c) s"

definition rstrip :: "nat \<Rightarrow> str \<Rightarrow> str" where
  "rstrip c s = rev (dropWhile (\<lambda>x. x = c) (rev s))"

fun join :: "str \<Rightarrow> str list \<Rightarrow> str" where
  "join sep [] = []"
| "join sep [x] = x"
| "join sep (x # y # ys) = x @ sep @ join sep (y # ys)"

text \<open>\<open>name.lower()\<close> of an enumeration member's name (ASCII letters).\<close>

definition lower :: "str \<Rightarrow> str" where
  "lower s = map (\<lambda>c. if 65 \<le> c \<and> c \<le> 90 then c + 32 else c) s"

section \<open>The primitive reader\<close>

text \<open>
  Modelled from the spec: the byte reader (\<open>util.ByteReader\<close>) is not in the sources.
  The specification (External interfaces, Error handling) gives fixed-width signed and
  unsigned integer reads in either byte order and raw N-byte reads, all advancing one
  cursor, and makes a read past the end fatal rather than short. A call of the source
  without \<open>endian=\<close> is taken as little-endian, the order of the engine's record
  integers. A failed read returns no reader: the specification leaves the cursor
  undefined after a failure.
\<close>

record ByteReader =
  buf :: bytes
  cursor :: nat

datatype endian = Little | Big

definition read :: "int \<Rightarrow> ByteReader \<Rightarrow> error + (bytes \<times> ByteReader)" where
  "read n r =
     (if n < 0 then Inl ValueError
      else if length (buf r) < cursor r + nat n then Inl BufferExhausted
      else Inr (take (nat n) (drop (cursor r) (buf r)), r\<lparr>cursor := cursor r + nat n\<rparr>))"

text \<open>The unsigned value of a byte string, most significant byte first.\<close>

definition be_uint :: "bytes \<Rightarrow> int" where
  "be_uint bs = foldl (\<lambda>acc b. acc * 256 + uint b) 0 bs"

definition bytes_uint :: "endian \<Rightarrow> bytes \<Rightarrow> int" where
  "bytes_uint e bs = (case e of Big \<Rightarrow> be_uint bs | Little \<Rightarrow> be_uint (rev bs))"

text \<open>Two's complement reading of an unsigned value of \<open>w\<close> bits.\<close>

definition twos :: "nat \<Rightarrow> int \<Rightarrow> int" where
  "twos w v = (if 2 ^ (w - 1) \<le> v then v - 2 ^ w else v)"

definition read_uint :: "nat \<Rightarrow> endian \<Rightarrow> ByteReader \<Rightarrow> error + (int \<times> ByteReader)" where
  "read_uint n e r =
     (case read (int n) r of
        Inl err \<Rightarrow> Inl err
      | Inr (bs, r') \<Rightarrow> Inr (bytes_uint e bs, r'))"

definition read_sint :: "nat \<Rightarrow> endian \<Rightarrow> ByteReader \<Rightarrow> error + (int \<times> ByteReader)" where
  "read_sint n e r =
     (case read (int n) r of
        Inl err \<Rightarrow> Inl err
      | Inr (bs, r') \<Rightarrow> Inr (twos (8 * n) (bytes_uint e bs), r'))"

definition uint8 :: "endian \<Rightarrow> ByteReader \<Rightarrow> error + (int \<times> ByteReader)" where
  "uint8 = read_uint 1"

definition uint16 :: "endian \<Rightarrow> ByteReader \<Rightarrow> error + (int \<times> ByteReader)" where
  "uint16 = read_uint 2"

definition uint24 :: "endian \<Rightarrow> ByteReader \<Rightarrow> error + (int \<times> ByteReader)" where
  "uint24 = read_uint 3"

definition uint32 :: "endian \<Rightarrow> ByteReader \<Rightarrow> error + (int \<times> ByteReader)" where
  "uint32 = read_uint 4"

definition uint40 :: "endian \<Rightarrow> ByteReader \<Rightarrow> error + (int \<times> ByteReader)" where
  "uint40 = read_uint 5"

definition uint48 :: "endian \<Rightarrow> ByteReader \<Rightarrow> error + (int \<times> ByteReader)" where
  "uint48 = read_uint 6"

definition uint64 :: "endian \<Rightarrow> ByteReader \<Rightarrow> error + (int \<times> ByteReader)" where
  "uint64 = read_uint 8"

definition sint8 :: "endian \<Rightarrow> ByteReader \<Rightarrow> error + (int \<times> ByteReader)" where
  "sint8 = read_sint 1"

definition sint16 :: "endian \<Rightarrow> ByteReader \<Rightarrow> error + (int \<times> ByteReader)" where
  "sint16 = read_sint 2"

definition sint24 :: "endian \<Rightarrow> ByteReader \<Rightarrow> error + (int \<times> ByteReader)" where
  "sint24 = read_sint 3"

definition sint32 :: "endian \<Rightarrow> ByteReader \<Rightarrow> error + (int \<times> ByteReader)" where
  "sint32 = read_sint 4"

definition sint64 :: "endian \<Rightarrow> ByteReader \<Rightarrow> error + (int \<times> ByteReader)" where
  "sint64 = read_sint 8"

text \<open>
  \<open>float()\<close> and \<open>double()\<close>: a floating-point value is kept as the 4 or 8 bytes read;
  only its rendering (\<open>fmt_g\<close> below) looks at it.
\<close>

definition read_float :: "ByteReader \<Rightarrow> error + (bytes \<times> ByteReader)" where
  "read_float = read 4"

definition read_double :: "ByteReader \<Rightarrow> error + (bytes \<times> ByteReader)" where
  "read_double = read 8"

section \<open>The column context\<close>

text \<open>
  The enumerations and the flag set come from \<open>constants\<close>, which is not in the sources;
  their members are the names the source uses: one type code for each
  \<open>unpack_type_*\<close> routine, and the roles of \<open>unireg_check\<close> the specification lists.
\<close>

datatype MySQLType =
    DECIMAL | TINY | SHORT | LONG | FLOAT | DOUBLE | NULL | TIMESTAMP | LONGLONG
  | INT24 | DATE | TIME | DATETIME | YEAR | NEWDATE | VARCHAR | BIT | TIMESTAMP2
  | DATETIME2 | TIME2 | NEWDECIMAL | ENUM | SET | TINY_BLOB | MEDIUM_BLOB
  | LONG_BLOB | BLOB | VAR_STRING | STRING | GEOMETRY

datatype Utype =
    NONE | NEXT_NUMBER | BLOB_FIELD
  | TIMESTAMP_DN_FIELD | TIMESTAMP_UN_FIELD | TIMESTAMP_DNUN_FIELD

text \<open>
  \<open>context.flags\<close>: \<open>flags_int\<close> is \<open>int(flags)\<close>, the other fields are the attributes
  the source reads (\<open>flags.DECIMAL\<close> is the signed-numeric marker).
\<close>

record FieldFlags =
  flags_int :: int
  flag_DECIMAL :: bool
  flag_ZEROFILL :: bool
  flag_NO_DEFAULT :: bool
  flag_MAYBE_NULL :: bool

text \<open>
  A charset descriptor: \<open>pycharset\<close> is the codec name \<open>charset.pycharset()\<close> returns.
\<close>

record Charset =
  charset_name :: str
  collation :: str
  is_default :: bool
  maxlen :: int
  pycharset :: str

record Context =
  type_code :: MySQLType
  subtype_name :: str
  flags :: FieldFlags
  length_col :: int
  charset :: Charset
  table_charset :: Charset
  labels :: "str list"
  unireg_check :: Utype
  null_bit :: int
  null_map :: bytes

text \<open>
  What the source takes from outside the repository's files, as a parameter of the
  routines that use it: the constants of \<open>constants\<close> (\<open>MAX_TIME_WIDTH\<close>,
  \<open>MAX_DATETIME_WIDTH\<close>, \<open>FieldFlag.DEC_SHIFT\<close>, \<open>FieldFlag.MAX_DEC\<close>) and three
  services of the Python library: \<open>fromtimestamp\<close> is
  \<open>datetime.datetime.fromtimestamp(epoch).strftime('%Y-%m-%d %H:%M:%S')\<close> (local time,
  may raise), \<open>py_decode\<close> is \<open>data.decode(codec)\<close>, and \<open>fmt_g\<close> is
  \<open>'%.*g' % (p, value)\<close> of a floating-point value given by its stored bytes.
\<close>

record Externals =
  MAX_TIME_WIDTH :: int
  MAX_DATETIME_WIDTH :: int
  DEC_SHIFT :: nat
  MAX_DEC :: int
  fromtimestamp :: "int \<Rightarrow> error + str"
  py_decode :: "str \<Rightarrow> bytes \<Rightarrow> error + str"
  fmt_g :: "int \<Rightarrow> bytes \<Rightarrow> str"

definition NOT_FIXED_DEC :: int where
  "NOT_FIXED_DEC = 31"

definition f_decimals :: "Externals \<Rightarrow> FieldFlags \<Rightarrow> int" where
  "f_decimals K fl = (drop_bit (DEC_SHIFT K) (flags_int fl)) AND MAX_DEC K"

definition f_is_dec :: "FieldFlags \<Rightarrow> bool" where
  "f_is_dec fl = flag_DECIMAL fl"

definition f_is_zerofill :: "FieldFlags \<Rightarrow> bool" where
  "f_is_zerofill fl = flag_ZEROFILL fl"

section \<open>Formatting of types\<close>

definition format_number :: "str \<Rightarrow> Context \<Rightarrow> str" where
  "format_number name context =
     (let v = name;
          v = (if length_col context \<noteq> 0
               then v @ lit ''('' @ str_int (length_col context) @ lit '')'' else v);
          v = (if \<not> flag_DECIMAL (flags context) then v @ lit '' unsigned'' else v);
          v = (if flag_ZEROFILL (flags context) then v @ lit '' zerofill'' else v)
      in v)"

definition format_type_tiny :: "Context \<Rightarrow> str" where
  "format_type_tiny context = format_number (lit ''tinyint'') context"

definition format_type_short :: "Context \<Rightarrow> str" where
  "format_type_short context = format_number (lit ''smallint'') context"

definition format_type_int24 :: "Context \<Rightarrow> str" where
  "format_type_int24 context = format_number (lit ''mediumint'') context"

definition format_type_long :: "Context \<Rightarrow> str" where
  "format_type_long context = format_number (lit ''int'') context"

definition format_type_longlong :: "Context \<Rightarrow> str" where
  "format_type_longlong context = format_number (lit ''bigint'') context"

definition format_type_newdecimal :: "Externals \<Rightarrow> Context \<Rightarrow> str" where
  "format_type_newdecimal K context =
     (let precision = length_col context;
          scale = f_decimals K (flags context);
          precision = (if scale \<noteq> 0 then precision - 1 else precision);
          precision = (if precision \<noteq> 0 then precision - 1 else precision)
      in lit ''decimal('' @ str_int precision @ lit '','' @ str_int scale @ lit '')'')"

definition format_real :: "Externals \<Rightarrow> str \<Rightarrow> Context \<Rightarrow> str" where
  "format_real K name context =
     (let v = name;
          decimals = f_decimals K (flags context);
          v = (if decimals \<noteq> NOT_FIXED_DEC
               then (let precision = length_col context; scale = decimals
                     in if scale < NOT_FIXED_DEC
                        then v @ lit ''('' @ str_int precision @ lit '','' @ str_int scale @ lit '')''
                        else v)
               else v);
          v = (if \<not> f_is_dec (flags context) then v @ lit '' unsigned'' else v);
          v = (if f_is_zerofill (flags context) then v @ lit '' zerofill'' else v)
      in v)"

definition format_type_float :: "Externals \<Rightarrow> Context \<Rightarrow> str" where
  "format_type_float K context = format_real K (lit ''float'') context"

definition format_type_double :: "Externals \<Rightarrow> Context \<Rightarrow> str" where
  "format_type_double K context = format_real K (lit ''double'') context"

definition format_charset :: "Context \<Rightarrow> str" where
  "format_charset context =
     (let v = [];
          v = (if table_charset context \<noteq> charset context
                  \<and> charset_name (charset context) \<noteq> lit ''binary''
               then v @ lit '' CHARACTER SET '' @ charset_name (charset context) else v);
          v = (if \<not> is_default (charset context)
               then v @ lit '' COLLATE '' @ collation (charset context) else v)
      in v)"

text \<open>\<open>context.length // context.charset.maxlen\<close>: division by zero raises.\<close>

definition char_length :: "Context \<Rightarrow> error + int" where
  "char_length context =
     (if maxlen (charset context) = 0 then Inl ZeroDivisionError
      else Inr (length_col context div maxlen (charset context)))"

definition format_type_string :: "Context \<Rightarrow> error + str" where
  "format_type_string context =
     (let name = (if charset_name (charset context) = lit ''binary''
                  then lit ''binary'' else lit ''char'')
      in case char_length context of
           Inl err \<Rightarrow> Inl err
         | Inr n \<Rightarrow> Inr (name @ lit ''('' @ str_int n @ lit '')'' @ format_charset context))"

definition format_type_varchar :: "Context \<Rightarrow> error + str" where
  "format_type_varchar context =
     (let name = (if charset_name (charset context) = lit ''binary''
                  then lit ''varbinary'' else lit ''varchar'')
      in case char_length context of
           Inl err \<Rightarrow> Inl err
         | Inr n \<Rightarrow> Inr (name @ lit ''('' @ str_int n @ lit '')'' @ format_charset context))"

definition format_type_var_string :: "Context \<Rightarrow> error + str" where
  "format_type_var_string = format_type_varchar"

definition format_type_enum :: "Context \<Rightarrow> str" where
  "format_type_enum context =
     lit ''enum('' @ join (lit '','') (map quote (labels context)) @ lit '')''
       @ format_charset context"

definition format_type_set :: "Context \<Rightarrow> str" where
  "format_type_set context =
     lit ''set('' @ join (lit '','') (map quote (labels context)) @ lit '')''
       @ format_charset context"

definition format_type_tiny_blob :: "Context \<Rightarrow> str" where
  "format_type_tiny_blob context =
     (if charset_name (charset context) = lit ''binary'' then lit ''tinyblob''
      else lit ''tinytext'' @ format_charset context)"

definition format_type_blob :: "Context \<Rightarrow> str" where
  "format_type_blob context =
     (if charset_name (charset context) = lit ''binary'' then lit ''blob''
      else lit ''text'' @ format_charset context)"

definition format_type_medium_blob :: "Context \<Rightarrow> str" where
  "format_type_medium_blob context =
     (if charset_name (charset context) = lit ''binary'' then lit ''mediumblob''
      else lit ''mediumtext'' @ format_charset context)"

definition format_type_long_blob :: "Context \<Rightarrow> str" where
  "format_type_long_blob context =
     (if charset_name (charset context) = lit ''binary'' then lit ''longblob''
      else lit ''longtext'' @ format_charset context)"

definition format_type_bit :: "Context \<Rightarrow> str" where
  "format_type_bit context = lit ''bit('' @ str_int (length_col context) @ lit '')''"

definition format_type_time2 :: "Externals \<Rightarrow> Context \<Rightarrow> str" where
  "format_type_time2 K context =
     (let scale = length_col context - MAX_TIME_WIDTH K - 1
      in if 0 < scale then lit ''time('' @ str_int scale @ lit '')'' else lit ''time'')"

definition format_type_time :: "Externals \<Rightarrow> Context \<Rightarrow> str" where
  "format_type_time = format_type_time2"

definition format_type_timestamp2 :: "Externals \<Rightarrow> Context \<Rightarrow> str" where
  "format_type_timestamp2 K context =
     (let scale = length_col context - MAX_DATETIME_WIDTH K - 1
      in if 0 < scale then lit ''timestamp('' @ str_int scale @ lit '')''
         else lit ''timestamp'')"

definition format_type_timestamp :: "Externals \<Rightarrow> Context \<Rightarrow> str" where
  "format_type_timestamp = format_type_timestamp2"

definition format_type_year :: "Context \<Rightarrow> str" where
  "format_type_year context = lit ''year('' @ str_int (length_col context) @ lit '')''"

definition format_type_newdate :: "Context \<Rightarrow> str" where
  "format_type_newdate context = lit ''date''"

definition format_type_date :: "Context \<Rightarrow> str" where
  "format_type_date = format_type_newdate"

definition format_type_datetime2 :: "Externals \<Rightarrow> Context \<Rightarrow> str" where
  "format_type_datetime2 K context =
     (let scale = length_col context - MAX_DATETIME_WIDTH K - 1
      in if 0 < scale then lit ''datetime('' @ str_int scale @ lit '')''
         else lit ''datetime'')"

definition format_type_datetime :: "Externals \<Rightarrow> Context \<Rightarrow> str" where
  "format_type_datetime = format_type_datetime2"

definition format_type_geometry :: "Context \<Rightarrow> str" where
  "format_type_geometry context = lower (subtype_name context)"

text \<open>
  \<open>globals()['format_type_' + name]\<close>: the routine of a type code, \<open>None\<close> where the
  module defines none (there is no \<open>format_type_null\<close>).
\<close>

fun format_type_lookup :: "MySQLType \<Rightarrow> (Externals \<Rightarrow> Context \<Rightarrow> error + str) option" where
  "format_type_lookup TINY = Some (\<lambda>K c. Inr (format_type_tiny c))"
| "format_type_lookup SHORT = Some (\<lambda>K c. Inr (format_type_short c))"
| "format_type_lookup INT24 = Some (\<lambda>K c. Inr (format_type_int24 c))"
| "format_type_lookup LONG = Some (\<lambda>K c. Inr (format_type_long c))"
| "format_type_lookup LONGLONG = Some (\<lambda>K c. Inr (format_type_longlong c))"
| "format_type_lookup NEWDECIMAL = Some (\<lambda>K c. Inr (format_type_newdecimal K c))"
| "format_type_lookup DECIMAL = Some (\<lambda>K c. Inr (format_type_newdecimal K c))"
| "format_type_lookup FLOAT = Some (\<lambda>K c. Inr (format_type_float K c))"
| "format_type_lookup DOUBLE = Some (\<lambda>K c. Inr (format_type_double K c))"
| "format_type_lookup STRING = Some (\<lambda>K c. format_type_string c)"
| "format_type_lookup VARCHAR = Some (\<lambda>K c. format_type_varchar c)"
| "format_type_lookup VAR_STRING = Some (\<lambda>K c. format_type_var_string c)"
| "format_type_lookup ENUM = Some (\<lambda>K c. Inr (format_type_enum c))"
| "format_type_lookup SET = Some (\<lambda>K c. Inr (format_type_set c))"
| "format_type_lookup TINY_BLOB = Some (\<lambda>K c. Inr (format_type_tiny_blob c))"
| "format_type_lookup BLOB = Some (\<lambda>K c. Inr (format_type_blob c))"
| "format_type_lookup MEDIUM_BLOB = Some (\<lambda>K c. Inr (format_type_medium_blob c))"
| "format_type_lookup LONG_BLOB = Some (\<lambda>K c. Inr (format_type_long_blob c))"
| "format_type_lookup BIT = Some (\<lambda>K c. Inr (format_type_bit c))"
| "format_type_lookup TIME2 = Some (\<lambda>K c. Inr (format_type_time2 K c))"
| "format_type_lookup TIME = Some (\<lambda>K c. Inr (format_type_time K c))"
| "format_type_lookup TIMESTAMP2 = Some (\<lambda>K c. Inr (format_type_timestamp2 K c))"
| "format_type_lookup TIMESTAMP = Some (\<lambda>K c. Inr (format_type_timestamp K c))"
| "format_type_lookup YEAR = Some (\<lambda>K c. Inr (format_type_year c))"
| "format_type_lookup NEWDATE = Some (\<lambda>K c. Inr (format_type_newdate c))"
| "format_type_lookup DATE = Some (\<lambda>K c. Inr (format_type_date c))"
| "format_type_lookup DATETIME2 = Some (\<lambda>K c. Inr (format_type_datetime2 K c))"
| "format_type_lookup DATETIME = Some (\<lambda>K c. Inr (format_type_datetime K c))"
| "format_type_lookup GEOMETRY = Some (\<lambda>K c. Inr (format_type_geometry c))"
| "format_type_lookup NULL = None"

definition format_type :: "Externals \<Rightarrow> Context \<Rightarrow> error + str" where
  "format_type K context =
     (case format_type_lookup (type_code context) of
        None \<Rightarrow> Inl LookupError
      | Some dispatch \<Rightarrow>
          (case dispatch K context of
             Inl err \<Rightarrow> Inl err
           | Inr result \<Rightarrow>
               (let result = (if \<not> flag_MAYBE_NULL (flags context)
                              then result @ lit '' NOT NULL'' else result);
                    result = (if unireg_check context = NEXT_NUMBER
                              then result @ lit '' AUTO_INCREMENT'' else result)
                in Inr result)))"

section \<open>Decoding of defaults\<close>

text \<open>
  A decoding routine takes the reader and the column context and returns the literal
  with the advanced reader, or the exception it raises.
\<close>

type_synonym decoded = "error + (str \<times> ByteReader)"

text \<open>\<open>data.decode('ascii')\<close>, strict, and \<open>data.decode('ascii', 'replace')\<close>.\<close>

definition decode_ascii :: "bytes \<Rightarrow> error + str" where
  "decode_ascii bs =
     (if list_all (\<lambda>b. b < 128) bs then Inr (map unat bs) else Inl UnicodeDecodeError)"

definition decode_ascii_replace :: "bytes \<Rightarrow> str" where
  "decode_ascii_replace bs = map (\<lambda>b. if b < 128 then unat b else 65533) bs"

text \<open>\<open>data.replace(b"\x00", b"\\0")\<close>: each NUL byte becomes backslash, zero.\<close>

definition escape_nul :: "bytes \<Rightarrow> bytes" where
  "escape_nul bs = concat (map (\<lambda>b. if b = 0 then [0x5C, 0x30] else [b]) bs)"

subsection \<open>Decimal types\<close>

definition unpack_type_decimal :: "ByteReader \<Rightarrow> Context \<Rightarrow> decoded" where
  "unpack_type_decimal defaults context =
     (case read (length_col context) defaults of
        Inl err \<Rightarrow> Inl err
      | Inr (data, defaults') \<Rightarrow>
          (case decode_ascii data of
             Inl err \<Rightarrow> Inl err
           | Inr s \<Rightarrow> Inr (quote s, defaults')))"

definition DIG_PER_DEC1 :: int where
  "DIG_PER_DEC1 = 9"

definition DIGITS_TO_BYTES :: "int list" where
  "DIGITS_TO_BYTES = [0, 1, 1, 2, 2, 3, 3, 4, 4, 4]"

text \<open>\<open>struct.unpack('>' + 'i'*(len(data) // 4), data)\<close> on a multiple of 4 bytes.\<close>

fun groups_i32 :: "bytes \<Rightarrow> int list" where
  "groups_i32 (a # b # c # d # rest) = twos 32 (be_uint [a, b, c, d]) # groups_i32 rest"
| "groups_i32 _ = []"

definition decode_decimal :: "bytes \<Rightarrow> bool \<Rightarrow> str" where
  "decode_decimal data invert =
     (let modcheck = int (length data) mod 4;
          data = (if modcheck \<noteq> 0
                  then (let pad = 4 - modcheck;
                            pad_char = (if invert then 0xFF else 0x00);
                            whole = slice_to data (- modcheck);
                            frac = replicate (nat pad) pad_char @ slice_from data (- modcheck)
                        in whole @ frac)
                  else data);
          groups = groups_i32 data;
          groups = (if invert then map (\<lambda>g. NOT g) groups else groups)
      in concat (map str_int groups))"

definition unpack_type_newdecimal :: "Externals \<Rightarrow> ByteReader \<Rightarrow> Context \<Rightarrow> decoded" where
  "unpack_type_newdecimal K defaults context =
     (let precision = length_col context;
          scale = f_decimals K (flags context);
          precision = (if scale \<noteq> 0 then precision - 1 else precision);
          precision = (if precision \<noteq> 0 then precision - 1 else precision);
          int_length = ((precision - scale) div 9) * 4
                         + DIGITS_TO_BYTES ! nat ((precision - scale) mod 9);
          frac_length = (scale div 9) * 4 + DIGITS_TO_BYTES ! nat (scale mod 9)
      in case read (int_length + frac_length) defaults of
           Inl err \<Rightarrow> Inl err
         | Inr (data, defaults') \<Rightarrow>
             (case data of
                [] \<Rightarrow> Inl StructError
              | first # rest \<Rightarrow>
                  (let sign = (if first AND 0x80 \<noteq> 0 then [] else lit ''-'');
                       data = (first XOR 0x80) # rest;
                       parts =
                         (if int_length \<noteq> 0
                          then (let integer_part = decode_decimal (slice_to data int_length)
                                                     (sign \<noteq> []);
                                    integer_part = (if lstrip 48 integer_part \<noteq> []
                                                    then lstrip 48 integer_part else lit ''0'')
                                in [sign @ integer_part])
                          else [sign @ lit ''0'']);
                       parts =
                         (if frac_length \<noteq> 0
                          then (let fractional_part = decode_decimal (slice_from data (- frac_length))
                                                        (sign \<noteq> [])
                                in parts @ [zfill scale fractional_part])
                          else parts)
                   in Inr (quote (join (lit ''.'') parts), defaults'))))"

subsection \<open>Integer types\<close>

definition format_integer_default :: "int \<Rightarrow> str" where
  "format_integer_default v = quote (str_int v)"

definition unpack_type_tiny :: "ByteReader \<Rightarrow> Context \<Rightarrow> decoded" where
  "unpack_type_tiny defaults context =
     (case (if flag_DECIMAL (flags context) then sint8 Little defaults
            else uint8 Little defaults) of
        Inl err \<Rightarrow> Inl err
      | Inr (v, defaults') \<Rightarrow> Inr (format_integer_default v, defaults'))"

definition unpack_type_short :: "ByteReader \<Rightarrow> Context \<Rightarrow> decoded" where
  "unpack_type_short defaults context =
     (case (if flag_DECIMAL (flags context) then sint16 Little defaults
            else uint16 Little defaults) of
        Inl err \<Rightarrow> Inl err
      | Inr (v, defaults') \<Rightarrow> Inr (format_integer_default v, defaults'))"

definition unpack_type_int24 :: "ByteReader \<Rightarrow> Context \<Rightarrow> decoded" where
  "unpack_type_int24 defaults context =
     (case (if flag_DECIMAL (flags context) then sint24 Little defaults
            else uint24 Little defaults) of
        Inl err \<Rightarrow> Inl err
      | Inr (v, defaults') \<Rightarrow> Inr (format_integer_default v, defaults'))"

definition unpack_type_long :: "ByteReader \<Rightarrow> Context \<Rightarrow> decoded" where
  "unpack_type_long defaults context =
     (case (if flag_DECIMAL (flags context) then sint32 Little defaults
            else uint32 Little defaults) of
        Inl err \<Rightarrow> Inl err
      | Inr (v, defaults') \<Rightarrow> Inr (format_integer_default v, defaults'))"

definition unpack_type_longlong :: "ByteReader \<Rightarrow> Context \<Rightarrow> decoded" where
  "unpack_type_longlong defaults context =
     (case (if flag_DECIMAL (flags context) then sint64 Little defaults
            else uint64 Little defaults) of
        Inl err \<Rightarrow> Inl err
      | Inr (v, defaults') \<Rightarrow> Inr (format_integer_default v, defaults'))"

subsection \<open>Floating point types\<close>

text \<open>\<open>base.partition('.')[0::2]\<close>: the text before and after the first dot.\<close>

definition partition_dot :: "str \<Rightarrow> str \<times> str" where
  "partition_dot s = (takeWhile (\<lambda>c. c \<noteq> 46) s, drop 1 (dropWhile (\<lambda>c. c \<noteq> 46) s))"

text \<open>
  The body that \<open>unpack_type_float\<close> and \<open>unpack_type_double\<close> share after the read;
  \<open>digits\<close> is 6 for \<open>'%.6g'\<close> and 16 for \<open>'%.16g'\<close>.
\<close>

definition render_real :: "Externals \<Rightarrow> int \<Rightarrow> int \<Rightarrow> int \<Rightarrow> bytes \<Rightarrow> str" where
  "render_real K digits scale precision v =
     (if NOT_FIXED_DEC \<le> scale then quote (fmt_g K digits v)
      else (let max_scale = (if 16 < precision then 16 else precision);
                base = fmt_g K max_scale v;
                int_part = fst (partition_dot base);
                dec_part = snd (partition_dot base);
                dec_part = (if int (length dec_part) < scale
                            then dec_part @ replicate (nat (scale - int (length dec_part))) 48
                            else dec_part)
            in quote (int_part @ lit ''.'' @ dec_part)))"

definition unpack_type_float :: "Externals \<Rightarrow> ByteReader \<Rightarrow> Context \<Rightarrow> decoded" where
  "unpack_type_float K defaults context =
     (let scale = f_decimals K (flags context);
          precision = length_col context
      in case read_float defaults of
           Inl err \<Rightarrow> Inl err
         | Inr (v, defaults') \<Rightarrow> Inr (render_real K 6 scale precision v, defaults'))"

definition unpack_type_double :: "Externals \<Rightarrow> ByteReader \<Rightarrow> Context \<Rightarrow> decoded" where
  "unpack_type_double K defaults context =
     (let scale = f_decimals K (flags context);
          precision = length_col context
      in case read_double defaults of
           Inl err \<Rightarrow> Inl err
         | Inr (v, defaults') \<Rightarrow> Inr (render_real K 16 scale precision v, defaults'))"

text \<open>\<open>raise NotImplemented\<close> raises TypeError: \<open>NotImplemented\<close> is not an exception.\<close>

definition unpack_type_null :: "ByteReader \<Rightarrow> Context \<Rightarrow> decoded" where
  "unpack_type_null defaults context = Inl TypeError"

subsection \<open>Date and time types\<close>

definition TIME_MAX_HOUR :: int where "TIME_MAX_HOUR = 838"
definition TIME_MAX_MINUTE :: int where "TIME_MAX_MINUTE = 59"
definition TIME_MAX_SECOND :: int where "TIME_MAX_SECOND = 59"
definition TIME_MAX_SECOND_PART :: int where "TIME_MAX_SECOND_PART = 999999"
definition TIME_SECOND_PART_FACTOR :: int where
  "TIME_SECOND_PART_FACTOR = TIME_MAX_SECOND_PART + 1"
definition TIME_SECOND_PART_DIGITS :: int where "TIME_SECOND_PART_DIGITS = 6"
definition TIME_MAX_VALUE_SECONDS :: int where
  "TIME_MAX_VALUE_SECONDS = TIME_MAX_HOUR * 3600 + TIME_MAX_MINUTE * 60 + TIME_MAX_SECOND"

text \<open>Both are called with \<open>digits \<le> 6\<close> only, where the power is an integer.\<close>

definition sec_part_shift :: "int \<Rightarrow> int \<Rightarrow> int" where
  "sec_part_shift v digits = v div 10 ^ nat (TIME_SECOND_PART_DIGITS - digits)"

definition sec_part_unshift :: "int \<Rightarrow> int \<Rightarrow> int" where
  "sec_part_unshift v digits = v * 10 ^ nat (TIME_SECOND_PART_DIGITS - digits)"

definition TIME_HIRES_BYTES :: "int list" where
  "TIME_HIRES_BYTES = [3, 4, 4, 5, 5, 5, 6]"

definition unpack_type_time_hires :: "ByteReader \<Rightarrow> Context \<Rightarrow> int \<Rightarrow> decoded" where
  "unpack_type_time_hires defaults context scale =
     (case py_index TIME_HIRES_BYTES scale of
        None \<Rightarrow> Inl IndexError
      | Some pack_length \<Rightarrow>
          (case (if pack_length = 3 then uint24 Big defaults
                 else if pack_length = 4 then uint32 Big defaults
                 else if pack_length = 5 then uint40 Big defaults
                 else if pack_length = 6 then uint48 Big defaults
                 else Inl KeyError) of
             Inl err \<Rightarrow> Inl err
           | Inr (v, defaults') \<Rightarrow>
               (let zero_point = sec_part_shift
                                   ((TIME_MAX_VALUE_SECONDS + 1) * TIME_SECOND_PART_FACTOR) scale;
                    v = sec_part_unshift (v - zero_point) scale;
                    usec = v mod 1000000; v = v div 1000000;
                    sec = v mod 60; v = v div 60;
                    minute = v mod 60; v = v div 60;
                    hour = v;
                    result = zfill 2 (str_int hour) @ lit '':'' @ zfill 2 (str_int minute)
                               @ lit '':'' @ zfill 2 (str_int sec) @ lit ''.''
                               @ zfill 6 (str_int usec);
                    result = (if scale < 6 then slice_to result (- (6 - scale)) else result)
                in Inr (quote result, defaults'))))"

definition unpack_type_time :: "Externals \<Rightarrow> ByteReader \<Rightarrow> Context \<Rightarrow> decoded" where
  "unpack_type_time K defaults context =
     (let scale = length_col context - MAX_TIME_WIDTH K - 1
      in if 0 < scale then unpack_type_time_hires defaults context scale
         else (case uint24 Little defaults of
                 Inl err \<Rightarrow> Inl err
               | Inr (v, defaults') \<Rightarrow>
                   (let hour = v div 10000;
                        minute = (v div 100) mod 100;
                        second = v mod 100
                    in Inr (quote (zfill 2 (str_int hour) @ lit '':'' @ zfill 2 (str_int minute)
                                     @ lit '':'' @ zfill 2 (str_int second)), defaults'))))"

text \<open>The fraction of a TIME2 value: \<open>scale\<close> is positive here.\<close>

definition time2_fraction :: "ByteReader \<Rightarrow> int \<Rightarrow> bool \<Rightarrow> decoded" where
  "time2_fraction defaults scale is_neg =
     (case py_index DIGITS_TO_BYTES scale of
        None \<Rightarrow> Inl IndexError
      | Some n \<Rightarrow>
          (case read n defaults of
             Inl err \<Rightarrow> Inl err
           | Inr (data, defaults') \<Rightarrow>
               (let data = (if length data mod 4 \<noteq> 0
                            then replicate (4 - length data mod 4)
                                   (if is_neg then 0xFF else 0x00) @ data
                            else data)
                in if length data \<noteq> 4 then Inl StructError
                   else (let frac_part = twos 32 (be_uint data);
                             frac_part = (if frac_part < 0 then - frac_part else frac_part);
                             frac_part = zfill scale (str_int frac_part);
                             frac_part = (if scale < int (length frac_part)
                                          then slice_to frac_part scale else frac_part)
                         in Inr (lit ''.'' @ frac_part, defaults')))))"

definition unpack_type_time2 :: "Externals \<Rightarrow> ByteReader \<Rightarrow> Context \<Rightarrow> decoded" where
  "unpack_type_time2 K defaults context =
     (case read 3 defaults of
        Inl err \<Rightarrow> Inl err
      | Inr (data, defaults') \<Rightarrow>
          (case data of
             [] \<Rightarrow> Inl StructError
           | first # rest \<Rightarrow>
               (let is_neg = (first AND 0x80 = 0);
                    data = 0x00 # (first - 0x80) # rest
                in if length data \<noteq> 4 then Inl StructError
                   else (let v = twos 32 (be_uint data);
                             v = (if is_neg then NOT v else v);
                             hour = (drop_bit 12 v) mod 2 ^ 10;
                             minute = (drop_bit 6 v) mod 2 ^ 6;
                             second = v mod 2 ^ 6;
                             result = zfill 2 (str_int hour) @ lit '':'' @ zfill 2 (str_int minute)
                                        @ lit '':'' @ zfill 2 (str_int second);
                             scale = length_col context - MAX_TIME_WIDTH K - 1
                         in case (if 0 < scale then time2_fraction defaults' scale is_neg
                                  else Inr ([], defaults')) of
                              Inl err \<Rightarrow> Inl err
                            | Inr (frac, defaults'') \<Rightarrow>
                                (let result = result @ frac;
                                     result = (if is_neg then lit ''-'' @ result else result)
                                 in Inr (quote result, defaults''))))))"


definition unpack_type_year :: "ByteReader \<Rightarrow> Context \<Rightarrow> decoded" where
  "unpack_type_year defaults context =
     (case uint8 Little defaults of
        Inl err \<Rightarrow> Inl err
      | Inr (v, defaults') \<Rightarrow>
          if v = 0 then Inr (quote (lit ''0000''), defaults')
          else Inr (quote (str_int (1900 + v)), defaults'))"


text \<open>Pre-4.1 DATE: \<open>raise NotImplementedError\<close>.\<close>

definition unpack_type_date :: "ByteReader \<Rightarrow> Context \<Rightarrow> decoded" where
  "unpack_type_date defaults context = Inl NotImplementedError"

definition unpack_type_newdate :: "ByteReader \<Rightarrow> Context \<Rightarrow> decoded" where
  "unpack_type_newdate defaults context =
     (case uint24 Little defaults of
        Inl err \<Rightarrow> Inl err
      | Inr (v, defaults') \<Rightarrow>
          (let year = drop_bit 9 v;
               month = (drop_bit 5 v) AND 15;
               day = v AND 31
           in Inr (quote (rjust_int 4 year @ lit ''-'' @ zfill 2 (str_int month) @ lit ''-''
                            @ zfill 2 (str_int day)), defaults')))"

definition zero_datetime :: str where
  "zero_datetime = lit ''0000-00-00 00:00:00''"

definition unpack_type_timestamp2 :: "Externals \<Rightarrow> ByteReader \<Rightarrow> Context \<Rightarrow> decoded" where
  "unpack_type_timestamp2 K defaults context =
     (case sint32 Big defaults of
        Inl err \<Rightarrow> Inl err
      | Inr (epoch, defaults1) \<Rightarrow>
          (case (if epoch \<noteq> 0 then fromtimestamp K epoch else Inr zero_datetime) of
             Inl err \<Rightarrow> Inl err
           | Inr v \<Rightarrow>
               (let scale = length_col context - MAX_DATETIME_WIDTH K - 1
                in case (if 0 < scale
                         then (case py_index DIGITS_TO_BYTES scale of
                                 None \<Rightarrow> Inl IndexError
                               | Some nbytes \<Rightarrow>
                                   (case (if nbytes = 1 then uint8 Big defaults1
                                          else if nbytes = 2 then uint16 Big defaults1
                                          else if nbytes = 3 then uint24 Big defaults1
                                          else Inl ValueError) of
                                      Inl err \<Rightarrow> Inl err
                                    | Inr (fractional, defaults2) \<Rightarrow>
                                        Inr (v @ lit ''.'' @ zfill scale (str_int fractional),
                                             defaults2)))
                         else Inr (v, defaults1)) of
                     Inl err \<Rightarrow> Inl err
                   | Inr (v, defaults2) \<Rightarrow>
                       (let scale_str = (if 0 < scale
                                         then lit ''('' @ str_int scale @ lit '')'' else [])
                        in Inr
                             (if unireg_check context = TIMESTAMP_DN_FIELD
                              then lit ''CURRENT_TIMESTAMP'' @ scale_str
                              else if unireg_check context = TIMESTAMP_UN_FIELD
                              then quote v @ lit '' ON UPDATE CURRENT_TIMESTAMP'' @ scale_str
                              else if unireg_check context = TIMESTAMP_DNUN_FIELD
                              then lit ''CURRENT_TIMESTAMP'' @ scale_str
                                     @ lit '' ON UPDATE CURRENT_TIMESTAMP'' @ scale_str
                              else quote v,
                              defaults2)))))"

definition unpack_type_timestamp :: "Externals \<Rightarrow> ByteReader \<Rightarrow> Context \<Rightarrow> decoded" where
  "unpack_type_timestamp K defaults context =
     (let scale = length_col context - MAX_DATETIME_WIDTH K - 1
      in if 0 < scale then unpack_type_timestamp2 K defaults context
         else (case sint32 Little defaults of
                 Inl err \<Rightarrow> Inl err
               | Inr (epoch, defaults') \<Rightarrow>
                   (case (if epoch \<noteq> 0 then fromtimestamp K epoch else Inr zero_datetime) of
                      Inl err \<Rightarrow> Inl err
                    | Inr v \<Rightarrow>
                        Inr (if unireg_check context = TIMESTAMP_DN_FIELD
                             then lit ''CURRENT_TIMESTAMP''
                             else if unireg_check context = TIMESTAMP_UN_FIELD
                             then quote v @ lit '' ON UPDATE CURRENT_TIMESTAMP''
                             else if unireg_check context = TIMESTAMP_DNUN_FIELD
                             then lit ''CURRENT_TIMESTAMP ON UPDATE CURRENT_TIMESTAMP''
                             else quote v,
                             defaults'))))"

text \<open>
  The loop over \<open>units\<close> is unrolled. With \<open>scale > 6\<close> the source multiplies by a
  negative power of ten and leaves integer arithmetic: \<open>FloatResult\<close>.
\<close>

definition unpack_type_datetime_hires :: "ByteReader \<Rightarrow> Context \<Rightarrow> int \<Rightarrow> decoded" where
  "unpack_type_datetime_hires defaults context scale =
     (case uint64 Big defaults of
        Inl err \<Rightarrow> Inl err
      | Inr (v, defaults') \<Rightarrow>
          if TIME_SECOND_PART_DIGITS < scale then Inl FloatResult
          else (let v = v * 10 ^ nat (TIME_SECOND_PART_DIGITS - scale);
                    usec = zfill scale (str_int (v mod 1000000)); v = v div 1000000;
                    second = zfill 2 (str_int (v mod 60)); v = v div 60;
                    minute = zfill 2 (str_int (v mod 60)); v = v div 60;
                    hour = zfill 2 (str_int (v mod 24)); v = v div 24;
                    day = zfill 2 (str_int (v mod 32)); v = v div 32;
                    month = zfill 2 (str_int (v mod 13)); v = v div 13;
                    year = str_int v
                in Inr (quote (year @ lit ''-'' @ month @ lit ''-'' @ day @ lit '' '' @ hour
                                 @ lit '':'' @ minute @ lit '':'' @ second @ lit ''.'' @ usec),
                        defaults')))"

definition unpack_type_datetime :: "Externals \<Rightarrow> ByteReader \<Rightarrow> Context \<Rightarrow> decoded" where
  "unpack_type_datetime K defaults context =
     (let scale = length_col context - MAX_DATETIME_WIDTH K - 1
      in if 0 < scale then unpack_type_datetime_hires defaults context scale
         else (case uint64 Little defaults of
                 Inl err \<Rightarrow> Inl err
               | Inr (v, defaults') \<Rightarrow>
                   (let second = zfill 2 (str_int (v mod 10 ^ 2)); v = v div 10 ^ 2;
                        minute = zfill 2 (str_int (v mod 10 ^ 2)); v = v div 10 ^ 2;
                        hour = zfill 2 (str_int (v mod 10 ^ 2)); v = v div 10 ^ 2;
                        day = zfill 2 (str_int (v mod 10 ^ 2)); v = v div 10 ^ 2;
                        month = zfill 2 (str_int (v mod 10 ^ 2)); v = v div 10 ^ 2;
                        year = zfill 4 (str_int (v mod 10 ^ 4))
                    in Inr (quote (year @ lit ''-'' @ month @ lit ''-'' @ day @ lit '' '' @ hour
                                     @ lit '':'' @ minute @ lit '':'' @ second), defaults'))))"

definition unpack_type_datetime2 :: "Externals \<Rightarrow> ByteReader \<Rightarrow> Context \<Rightarrow> decoded" where
  "unpack_type_datetime2 K defaults context =
     (case uint40 Big defaults of
        Inl err \<Rightarrow> Inl err
      | Inr (ymdhms, defaults1) \<Rightarrow>
          (let ymd = drop_bit 17 ymdhms;
               ym = (drop_bit 5 ymd) AND NOT (2 ^ 17);
               day = ymd mod 2 ^ 5;
               month = ym mod 13;
               year = ym div 13;
               hms = ymdhms mod 2 ^ 17;
               second = hms mod 2 ^ 6;
               minute = (drop_bit 6 hms) mod 2 ^ 6;
               hour = drop_bit 12 hms;
               v = str_int year @ lit ''-'' @ zfill 2 (str_int month) @ lit ''-''
                     @ zfill 2 (str_int day) @ lit '' '' @ zfill 2 (str_int hour) @ lit '':''
                     @ zfill 2 (str_int minute) @ lit '':'' @ zfill 2 (str_int second);
               scale = length_col context - MAX_DATETIME_WIDTH K - 1
           in if 0 < scale
              then (case py_index DIGITS_TO_BYTES scale of
                      None \<Rightarrow> Inl IndexError
                    | Some n \<Rightarrow>
                        (case read n defaults1 of
                           Inl err \<Rightarrow> Inl err
                         | Inr (frac_bytes, defaults2) \<Rightarrow>
                             (let padded = replicate (4 - length frac_bytes) 0x00 @ frac_bytes
                              in if length padded \<noteq> 4 then Inl StructError
                                 else (let microseconds = zfill scale (str_int (be_uint padded));
                                           microseconds =
                                             (if scale < int (length microseconds)
                                              then slice_to microseconds scale else microseconds)
                                       in Inr (quote (v @ lit ''.'' @ microseconds), defaults2)))))
              else Inr (quote v, defaults1)))"

subsection \<open>String types\<close>

definition unpack_type_varchar :: "Externals \<Rightarrow> ByteReader \<Rightarrow> Context \<Rightarrow> decoded" where
  "unpack_type_varchar K defaults context =
     (case (if length_col context < 256 then uint8 Little defaults
            else uint16 Little defaults) of
        Inl err \<Rightarrow> Inl err
      | Inr (n, defaults1) \<Rightarrow>
          (case read n defaults1 of
             Inl err \<Rightarrow> Inl err
           | Inr (data, defaults2) \<Rightarrow>
               if charset_name (charset context) = lit ''binary''
               then (let data = escape_nul data
                     in Inr (quote (rstrip 32 (decode_ascii_replace data)), defaults2))
               else (case py_decode K (pycharset (charset context)) data of
                       Inl err \<Rightarrow> Inl err
                     | Inr s \<Rightarrow> Inr (quote s, defaults2))))"

definition unpack_type_var_string :: "Externals \<Rightarrow> ByteReader \<Rightarrow> Context \<Rightarrow> decoded" where
  "unpack_type_var_string K defaults context =
     (case read (length_col context) defaults of
        Inl err \<Rightarrow> Inl err
      | Inr (data, defaults') \<Rightarrow>
          (case py_decode K (pycharset (charset context)) data of
             Inl err \<Rightarrow> Inl err
           | Inr s \<Rightarrow> Inr (quote (rstrip 32 s), defaults')))"

definition unpack_type_string :: "Externals \<Rightarrow> ByteReader \<Rightarrow> Context \<Rightarrow> decoded" where
  "unpack_type_string K defaults context =
     (case read (length_col context) defaults of
        Inl err \<Rightarrow> Inl err
      | Inr (bytestr, defaults') \<Rightarrow>
          if charset_name (charset context) = lit ''binary''
          then (let bytestr = escape_nul bytestr
                in Inr (quote (rstrip 32 (decode_ascii_replace bytestr)), defaults'))
          else (case py_decode K (pycharset (charset context)) bytestr of
                  Inl err \<Rightarrow> Inl err
                | Inr s \<Rightarrow> Inr (quote (rstrip 32 s), defaults')))"

subsection \<open>BIT, ENUM and SET\<close>

text \<open>\<open>bin(value)[2:]\<close>: the binary digits of a non-negative integer.\<close>

fun bin_digits :: "nat \<Rightarrow> str" where
  "bin_digits n = (if n < 2 then [48 + n] else bin_digits (n div 2) @ [48 + n mod 2])"

declare bin_digits.simps [simp del]

definition unpack_type_bit :: "ByteReader \<Rightarrow> Context \<Rightarrow> decoded" where
  "unpack_type_bit defaults context =
     (let nbytes = (length_col context + 7) div 8;
          pad = replicate (nat (8 - nbytes)) (0x00 :: byte)
      in case read nbytes defaults of
           Inl err \<Rightarrow> Inl err
         | Inr (data, defaults') \<Rightarrow>
             if length (pad @ data) \<noteq> 8 then Inl StructError
             else Inr (lit ''b'' @ quote (bin_digits (nat (be_uint (pad @ data)))), defaults'))"

definition unpack_type_enum :: "ByteReader \<Rightarrow> Context \<Rightarrow> decoded" where
  "unpack_type_enum defaults context =
     (case (if length (labels context) < 256 then uint8 Little defaults
            else uint16 Little defaults) of
        Inl err \<Rightarrow> Inl err
      | Inr (v, defaults') \<Rightarrow>
          (let offset = v - 1
           in case py_index (labels context) offset of
                Some label \<Rightarrow> Inr (quote label, defaults')
              | None \<Rightarrow> Inr (quote [], defaults')))"

definition unpack_type_set :: "ByteReader \<Rightarrow> Context \<Rightarrow> decoded" where
  "unpack_type_set defaults context =
     (let elt_count = int (length (labels context));
          n_bytes = (elt_count + 7) div 8;
          n_bytes = (if 4 < n_bytes then 8 else n_bytes)
      in case (if n_bytes = 1 then uint8 Little defaults
               else if n_bytes = 2 then uint16 Little defaults
               else if n_bytes = 3 then uint24 Little defaults
               else if n_bytes = 4 then uint32 Little defaults
               else if n_bytes = 8 then uint64 Little defaults
               else Inl ValueError) of
           Inl err \<Rightarrow> Inl err
         | Inr (v, defaults') \<Rightarrow>
             (let result = map snd (filter (\<lambda>p. v AND push_bit (fst p) 1 \<noteq> 0)
                                      (enumerate 0 (labels context)))
              in Inr (quote (join (lit '','') result), defaults')))"

subsection \<open>Types without a default\<close>

definition unpack_type_long_blob :: "ByteReader \<Rightarrow> Context \<Rightarrow> decoded" where
  "unpack_type_long_blob defaults context = Inl NotImplementedError"

definition unpack_type_tiny_blob :: "ByteReader \<Rightarrow> Context \<Rightarrow> decoded" where
  "unpack_type_tiny_blob = unpack_type_long_blob"

definition unpack_type_medium_blob :: "ByteReader \<Rightarrow> Context \<Rightarrow> decoded" where
  "unpack_type_medium_blob = unpack_type_long_blob"

definition unpack_type_blob :: "ByteReader \<Rightarrow> Context \<Rightarrow> decoded" where
  "unpack_type_blob = unpack_type_long_blob"

definition unpack_type_geometry :: "ByteReader \<Rightarrow> Context \<Rightarrow> decoded" where
  "unpack_type_geometry defaults context = Inl NotImplementedError"

subsection \<open>Dispatch and the null-bitmap protocol\<close>

text \<open>\<open>globals()['unpack_type_' + name]\<close>: every type code has a routine.\<close>

fun unpack_type_lookup ::
  "MySQLType \<Rightarrow> (Externals \<Rightarrow> ByteReader \<Rightarrow> Context \<Rightarrow> decoded) option" where
  "unpack_type_lookup DECIMAL = Some (\<lambda>K. unpack_type_decimal)"
| "unpack_type_lookup NEWDECIMAL = Some unpack_type_newdecimal"
| "unpack_type_lookup TINY = Some (\<lambda>K. unpack_type_tiny)"
| "unpack_type_lookup SHORT = Some (\<lambda>K. unpack_type_short)"
| "unpack_type_lookup INT24 = Some (\<lambda>K. unpack_type_int24)"
| "unpack_type_lookup LONG = Some (\<lambda>K. unpack_type_long)"
| "unpack_type_lookup LONGLONG = Some (\<lambda>K. unpack_type_longlong)"
| "unpack_type_lookup FLOAT = Some unpack_type_float"
| "unpack_type_lookup DOUBLE = Some unpack_type_double"
| "unpack_type_lookup NULL = Some (\<lambda>K. unpack_type_null)"
| "unpack_type_lookup TIME = Some unpack_type_time"
| "unpack_type_lookup TIME2 = Some unpack_type_time2"
| "unpack_type_lookup YEAR = Some (\<lambda>K. unpack_type_year)"
| "unpack_type_lookup DATE = Some (\<lambda>K. unpack_type_date)"
| "unpack_type_lookup NEWDATE = Some (\<lambda>K. unpack_type_newdate)"
| "unpack_type_lookup TIMESTAMP = Some unpack_type_timestamp"
| "unpack_type_lookup TIMESTAMP2 = Some unpack_type_timestamp2"
| "unpack_type_lookup DATETIME = Some unpack_type_datetime"
| "unpack_type_lookup DATETIME2 = Some unpack_type_datetime2"
| "unpack_type_lookup VARCHAR = Some unpack_type_varchar"
| "unpack_type_lookup VAR_STRING = Some unpack_type_var_string"
| "unpack_type_lookup STRING = Some unpack_type_string"
| "unpack_type_lookup BIT = Some (\<lambda>K. unpack_type_bit)"
| "unpack_type_lookup ENUM = Some (\<lambda>K. unpack_type_enum)"
| "unpack_type_lookup SET = Some (\<lambda>K. unpack_type_set)"
| "unpack_type_lookup LONG_BLOB = Some (\<lambda>K. unpack_type_long_blob)"
| "unpack_type_lookup TINY_BLOB = Some (\<lambda>K. unpack_type_tiny_blob)"
| "unpack_type_lookup MEDIUM_BLOB = Some (\<lambda>K. unpack_type_medium_blob)"
| "unpack_type_lookup BLOB = Some (\<lambda>K. unpack_type_blob)"
| "unpack_type_lookup GEOMETRY = Some (\<lambda>K. unpack_type_geometry)"

text \<open>
  The result of \<open>unpack_default\<close>: \<open>None\<close> is Python's \<open>None\<close> (no default). The
  context is returned beside it, because \<open>context.null_bit += 1\<close> happens before the
  dispatch and stays when the dispatch raises.
\<close>

type_synonym default_result = "(error + (str option \<times> ByteReader)) \<times> Context"

text \<open>
  The lines of \<open>unpack_default\<close> after the null-bit block: the blob marker, then the
  dispatch, where NotImplementedError is raised again as LookupError.
\<close>

definition unpack_default_dispatch ::
  "Externals \<Rightarrow> ByteReader \<Rightarrow> Context \<Rightarrow> default_result" where
  "unpack_default_dispatch K defaults context =
     (if unireg_check context = BLOB_FIELD then (Inr (None, defaults), context)
      else (case unpack_type_lookup (type_code context) of
              None \<Rightarrow> (Inl LookupError, context)
            | Some dispatch \<Rightarrow>
                (case dispatch K defaults context of
                   Inl err \<Rightarrow>
                     (Inl (if err = NotImplementedError then LookupError else err), context)
                 | Inr (v, defaults') \<Rightarrow> (Inr (Some v, defaults'), context))))"

definition unpack_default ::
  "Externals \<Rightarrow> ByteReader \<Rightarrow> Context \<Rightarrow> default_result" where
  "unpack_default K defaults context =
     (let no_default_value = flag_NO_DEFAULT (flags context);
          is_auto_increment = (unireg_check context = NEXT_NUMBER)
      in if no_default_value \<or> is_auto_increment then (Inr (None, defaults), context)
         else if flag_MAYBE_NULL (flags context)
         then (let offset = null_bit context div 8
               in case py_index (null_map context) offset of
                    None \<Rightarrow> (Inl IndexError, context)
                  | Some null_byte \<Rightarrow>
                      (let bit_no = null_bit context mod 8;
                           context' = context\<lparr>null_bit := null_bit context + 1\<rparr>
                       in if uint null_byte AND push_bit (nat bit_no) 1 \<noteq> 0
                             \<and> unireg_check context' \<noteq> BLOB_FIELD
                          then (Inr (Some (lit ''NULL''), defaults), context')
                          else unpack_default_dispatch K defaults context'))
         else unpack_default_dispatch K defaults context)"

section \<open>Encodings and conditions the specification names\<close>

text \<open>
  The DATETIME2 value as the specification lays it out: the date field in the upper 23
  bits (the day in its low 5 bits, \<open>year * 13 + month\<close> in the next 17, and the top bit,
  which the storage format sets on stored values), the time field in the low 17 bits
  (second in the low 6, minute in the next 6, hour above).
\<close>

definition datetime2_pack ::
  "bool \<Rightarrow> int \<Rightarrow> int \<Rightarrow> int \<Rightarrow> int \<Rightarrow> int \<Rightarrow> int \<Rightarrow> int" where
  "datetime2_pack marked year month day hour minute second =
     push_bit 17 ((if marked then push_bit 22 1 else 0) + push_bit 5 (year * 13 + month) + day)
       + (push_bit 12 hour + push_bit 6 minute + second)"

text \<open>
  The fraction byte count of a fractional-second scale, by the specification's table for
  the scales 0 to 6: 0, 1, 1, 2, 2, 3, 3.
\<close>

definition fraction_bytes :: "int \<Rightarrow> nat" where
  "fraction_bytes scale =
     (if 0 < scale \<and> scale \<le> 6 then [0, 1, 1, 2, 2, 3, 3] ! nat scale else 0)"

text \<open>The null-map bit at the position \<open>null_bit\<close>: \<open>None\<close> past the end of the map.\<close>

definition null_map_bit :: "Context \<Rightarrow> bool option" where
  "null_map_bit context =
     (case py_index (null_map context) (null_bit context div 8) of
        None \<Rightarrow> None
      | Some b \<Rightarrow> Some (bit b (nat (null_bit context mod 8))))"

text \<open>
  A column reaches the dispatch when none of the earlier returns of \<open>unpack_default\<close>
  applies: the no-stored-default flag is clear, \<open>unireg_check\<close> is neither auto-increment
  nor the blob marker, and a nullable column's null bit is there and clear.
\<close>

definition dispatch_reached :: "Context \<Rightarrow> bool" where
  "dispatch_reached context =
     (\<not> flag_NO_DEFAULT (flags context) \<and> unireg_check context \<noteq> NEXT_NUMBER
      \<and> unireg_check context \<noteq> BLOB_FIELD
      \<and> (if flag_MAYBE_NULL (flags context) then null_map_bit context = Some False
          else True))"

text \<open>
  The NEWDECIMAL storage format as the specification describes it; the repository has a
  decoder only. A value is its sign, its integer digits (as many as the column's
  precision minus scale) and its fraction digits (as many as the scale). The digits are
  cut into groups of 9 counted from the decimal point, so the shorter group is the
  leading one of the integer part and the trailing one of the fraction; a group of
  \<open>k\<close> digits is its value in \<open>DIGITS_TO_BYTES[k]\<close> bytes, most significant first. A
  negative value has every byte complemented, and the top bit of the first byte is
  flipped last.
\<close>

fun be_bytes :: "nat \<Rightarrow> int \<Rightarrow> bytes" where
  "be_bytes 0 v = []"
| "be_bytes (Suc n) v = be_bytes n (v div 256) @ [word_of_int v]"

definition digits_value :: "nat list \<Rightarrow> int" where
  "digits_value ds = foldl (\<lambda>a d. 10 * a + int d) 0 ds"

function chunks9 :: "nat list \<Rightarrow> nat list list" where
  "chunks9 ds = (if ds = [] then [] else take 9 ds # chunks9 (drop 9 ds))"
  by pat_completeness auto
termination
  by (relation "measure length") auto

declare chunks9.simps [simp del]

definition encode_group :: "nat list \<Rightarrow> bytes" where
  "encode_group ds = be_bytes (nat (DIGITS_TO_BYTES ! length ds)) (digits_value ds)"

definition newdecimal_encode :: "bool \<Rightarrow> nat list \<Rightarrow> nat list \<Rightarrow> bytes" where
  "newdecimal_encode negative int_digits frac_digits =
     (let lead = length int_digits mod 9;
          int_bytes = (if lead \<noteq> 0 then encode_group (take lead int_digits) else [])
                        @ concat (map encode_group (chunks9 (drop lead int_digits)));
          frac_bytes = concat (map encode_group (chunks9 frac_digits));
          bs = int_bytes @ frac_bytes;
          bs = (if negative then map (\<lambda>b. NOT b) bs else bs)
      in case bs of [] \<Rightarrow> [] | b # rest \<Rightarrow> (b XOR 0x80) # rest)"

text \<open>
  The digit string of such a value: the sign, the integer digits without leading zeros
  (at least one digit), and after a dot the fraction digits.
\<close>

definition digit_string :: "bool \<Rightarrow> nat list \<Rightarrow> nat list \<Rightarrow> str" where
  "digit_string negative int_digits frac_digits =
     (let ip = dropWhile (\<lambda>d. d = 0) int_digits
      in (if negative then lit ''-'' else [])
           @ (if ip = [] then lit ''0'' else map (\<lambda>d. 48 + d) ip)
           @ (if frac_digits = [] then [] else lit ''.'' @ map (\<lambda>d. 48 + d) frac_digits))"

section \<open>Sample inputs\<close>

definition K0 :: Externals where
  "K0 = \<lparr>MAX_TIME_WIDTH = 10, MAX_DATETIME_WIDTH = 19, DEC_SHIFT = 8, MAX_DEC = 31,
         fromtimestamp = (\<lambda>t. Inr (lit ''1970-01-01 00:00:01'')),
         py_decode = (\<lambda>codec. decode_ascii),
         fmt_g = (\<lambda>p v. lit ''0'')\<rparr>"

definition plain_flags :: FieldFlags where
  "plain_flags = \<lparr>flags_int = 0, flag_DECIMAL = False, flag_ZEROFILL = False,
                  flag_NO_DEFAULT = False, flag_MAYBE_NULL = False\<rparr>"

definition utf8 :: Charset where
  "utf8 = \<lparr>charset_name = lit ''utf8'', collation = lit ''utf8_general_ci'',
           is_default = True, maxlen = 3, pycharset = lit ''utf8''\<rparr>"

definition binary :: Charset where
  "binary = \<lparr>charset_name = lit ''binary'', collation = lit ''binary'',
             is_default = True, maxlen = 1, pycharset = lit ''latin1''\<rparr>"

definition column :: "MySQLType \<Rightarrow> int \<Rightarrow> Context" where
  "column t n = \<lparr>type_code = t, subtype_name = [], flags = plain_flags, length_col = n,
                 charset = utf8, table_charset = utf8, labels = [],
                 unireg_check = NONE, null_bit = 0, null_map = []\<rparr>"

definition reader :: "bytes \<Rightarrow> ByteReader" where
  "reader bs = \<lparr>buf = bs, cursor = 0\<rparr>"

definition abc :: "str list" where
  "abc = [lit ''a'', lit ''b'', lit ''c'']"

text \<open>
  A NEWDECIMAL column of a precision and scale: \<open>length\<close> counts the digits, the dot and
  the sign, and the scale sits in the flags above \<open>DEC_SHIFT K0\<close>.
\<close>

definition decimal_column :: "nat \<Rightarrow> nat \<Rightarrow> Context" where
  "decimal_column precision scale =
     (column NEWDECIMAL (int precision + (if 0 < scale then 1 else 0)
                           + (if 0 < precision then 1 else 0)))
       \<lparr>flags := plain_flags\<lparr>flags_int := push_bit 8 (int scale)\<rparr>\<rparr>"

section \<open>Facts about the reader\<close>

lemma read_one:
  "cursor d < length (buf d) \<Longrightarrow>
   read 1 d = Inr ([buf d ! cursor d], d\<lparr>cursor := cursor d + 1\<rparr>)"
  by (simp add: read_def take_Suc_conv_app_nth Cons_nth_drop_Suc[symmetric])

lemma uint8_byte:
  "cursor d < length (buf d) \<Longrightarrow>
   uint8 e d = Inr (uint (buf d ! cursor d), d\<lparr>cursor := cursor d + 1\<rparr>)"
  by (cases e) (simp_all add: uint8_def read_uint_def read_one bytes_uint_def be_uint_def)

lemma read_cursor:
  "read n d = Inr (bs, d') \<Longrightarrow> cursor d' = cursor d + nat n \<and> buf d' = buf d \<and> length bs = nat n"
  by (auto simp add: read_def split: if_splits)

lemma read_uint_cursor:
  "read_uint n e d = Inr (v, d') \<Longrightarrow> cursor d' = cursor d + n \<and> buf d' = buf d"
  by (auto simp add: read_uint_def split: sum.splits dest: read_cursor)

lemma read_sint_cursor:
  "read_sint n e d = Inr (v, d') \<Longrightarrow> cursor d' = cursor d + n \<and> buf d' = buf d"
  by (auto simp add: read_sint_def split: sum.splits dest: read_cursor)

lemma uint8_cursor:
  "uint8 e d = Inr (v, d') \<Longrightarrow> cursor d' = cursor d + 1 \<and> buf d' = buf d"
  unfolding uint8_def by (drule read_uint_cursor) simp

lemma uint16_cursor:
  "uint16 e d = Inr (v, d') \<Longrightarrow> cursor d' = cursor d + 2 \<and> buf d' = buf d"
  unfolding uint16_def by (drule read_uint_cursor) simp

lemma uint24_cursor:
  "uint24 e d = Inr (v, d') \<Longrightarrow> cursor d' = cursor d + 3 \<and> buf d' = buf d"
  unfolding uint24_def by (drule read_uint_cursor) simp

lemma sint32_cursor:
  "sint32 e d = Inr (v, d') \<Longrightarrow> cursor d' = cursor d + 4 \<and> buf d' = buf d"
  unfolding sint32_def by (drule read_sint_cursor) simp

lemma read_enough:
  "cursor d + n \<le> length (buf d) \<Longrightarrow>
   \<exists>bs. read (int n) d = Inr (bs, d\<lparr>cursor := cursor d + n\<rparr>)"
  by (simp add: read_def)

lemma read_uint_enough:
  "cursor d + n \<le> length (buf d) \<Longrightarrow>
   \<exists>v. read_uint n e d = Inr (v, d\<lparr>cursor := cursor d + n\<rparr>)"
  using read_enough [of d n] by (auto simp add: read_uint_def)

lemma read_sint_enough:
  "cursor d + n \<le> length (buf d) \<Longrightarrow>
   \<exists>v. read_sint n e d = Inr (v, d\<lparr>cursor := cursor d + n\<rparr>)"
  using read_enough [of d n] by (auto simp add: read_sint_def)

section \<open>YEAR\<close>

text \<open>
  Claim C10. \<open>unpack_type_year\<close> reads exactly one byte: with a byte \<open>b\<close> under the
  cursor it returns \<open>'0000'\<close> when \<open>b\<close> is 0 and otherwise the decimal string of
  \<open>1900 + b\<close>, a year from 1901 to 2155, and the cursor has advanced by one.
\<close>

theorem unpack_type_year_decodes:
  assumes "cursor d < length (buf d)"
  shows "unpack_type_year d ctx =
           Inr (if buf d ! cursor d = 0 then quote (lit ''0000'')
                else quote (str_int (1900 + uint (buf d ! cursor d))),
                d\<lparr>cursor := cursor d + 1\<rparr>)
         \<and> 1900 + uint (buf d ! cursor d) \<le> 2155
         \<and> (buf d ! cursor d \<noteq> 0 \<longrightarrow> 1901 \<le> 1900 + uint (buf d ! cursor d))"
proof -
  let ?b = "buf d ! cursor d"
  have "uint ?b < 256" using uint_bounded[of ?b] by simp
  moreover have "1 \<le> uint ?b" if "?b \<noteq> 0"
  proof -
    have "uint ?b \<noteq> 0" using that by (simp add: uint_0_iff)
    moreover have "0 \<le> uint ?b" by simp
    ultimately show ?thesis by linarith
  qed
  moreover have "(uint ?b = 0) = (?b = 0)" by (simp add: uint_0_iff)
  ultimately show ?thesis
    using assms by (auto simp add: unpack_type_year_def uint8_byte)
qed

theorem unpack_type_year_witness:
  "cursor (reader [0x4A]) < length (buf (reader [0x4A]))
   \<and> unpack_type_year (reader [0x4A]) (column YEAR 4)
       = Inr (quote (lit ''1974''), \<lparr>buf = [0x4A], cursor = 1\<rparr>)"
  using unpack_type_year_decodes [of "reader [0x4A]" "column YEAR 4"]
  by (simp add: reader_def quote_def str_int_def digits10.simps)

lemma unpack_type_year_exhausted:
  "length (buf d) \<le> cursor d \<Longrightarrow> unpack_type_year d ctx = Inl BufferExhausted"
  by (simp add: unpack_type_year_def uint8_def read_uint_def read_def)

section \<open>Type formatting\<close>
lemma str_int_11: "str_int 11 = lit ''11''"
  by (simp add: str_int_def digits10.simps)


text \<open>
  Claim C9. An INT column of length 11 with the signed-numeric flag clear, zero-filled,
  not nullable and not auto-increment is formatted as
  \<open>int(11) unsigned zerofill NOT NULL\<close>; and for every type code that has a formatting
  routine, the result is the routine's fragment, then \<open> NOT NULL\<close> when the column is not
  nullable, then \<open> AUTO_INCREMENT\<close> when \<open>unireg_check\<close> marks auto-increment.
\<close>

theorem format_type_suffixes:
  "(type_code ctx = LONG \<and> length_col ctx = 11 \<and> \<not> flag_DECIMAL (flags ctx)
      \<and> flag_ZEROFILL (flags ctx) \<and> \<not> flag_MAYBE_NULL (flags ctx)
      \<and> unireg_check ctx \<noteq> NEXT_NUMBER
    \<longrightarrow> format_type K ctx = Inr (lit ''int(11) unsigned zerofill NOT NULL''))
   \<and> (\<forall>dispatch fragment.
        format_type_lookup (type_code ctx) = Some dispatch \<and> dispatch K ctx = Inr fragment
        \<longrightarrow> format_type K ctx =
              Inr (fragment
                   @ (if flag_MAYBE_NULL (flags ctx) then [] else lit '' NOT NULL'')
                   @ (if unireg_check ctx = NEXT_NUMBER then lit '' AUTO_INCREMENT'' else [])))"
proof (intro conjI impI allI)
  assume h: "type_code ctx = LONG \<and> length_col ctx = 11 \<and> \<not> flag_DECIMAL (flags ctx)
      \<and> flag_ZEROFILL (flags ctx) \<and> \<not> flag_MAYBE_NULL (flags ctx)
      \<and> unireg_check ctx \<noteq> NEXT_NUMBER"
  then show "format_type K ctx = Inr (lit ''int(11) unsigned zerofill NOT NULL'')"
    by (simp add: format_type_def format_type_long_def format_number_def str_int_11)
next
  fix dispatch fragment
  assume "format_type_lookup (type_code ctx) = Some dispatch \<and> dispatch K ctx = Inr fragment"
  then show "format_type K ctx =
              Inr (fragment
                   @ (if flag_MAYBE_NULL (flags ctx) then [] else lit '' NOT NULL'')
                   @ (if unireg_check ctx = NEXT_NUMBER then lit '' AUTO_INCREMENT'' else []))"
    by (simp add: format_type_def)
qed

theorem format_type_suffixes_witness:
  "format_type K0 ((column LONG 11)\<lparr>flags := plain_flags\<lparr>flag_ZEROFILL := True\<rparr>\<rparr>)
     = Inr (lit ''int(11) unsigned zerofill NOT NULL'')
   \<and> format_type K0 ((column VARCHAR 765)\<lparr>unireg_check := NEXT_NUMBER\<rparr>)
     = Inr (lit ''varchar(255) NOT NULL AUTO_INCREMENT'')"
proof -
  let ?c = "(column LONG 11)\<lparr>flags := plain_flags\<lparr>flag_ZEROFILL := True\<rparr>\<rparr>"
  let ?v = "(column VARCHAR 765)\<lparr>unireg_check := NEXT_NUMBER\<rparr>"
  have 1: "format_type K0 ?c = Inr (lit ''int(11) unsigned zerofill NOT NULL'')"
    using format_type_suffixes [of ?c K0]
    by (simp add: column_def plain_flags_def)
  have frag: "format_type_varchar ?v = Inr (lit ''varchar(255)'')"
    by (simp add: format_type_varchar_def char_length_def format_charset_def column_def
        utf8_def str_int_def digits10.simps)
  have 2: "format_type K0 ?v = Inr (lit ''varchar(255) NOT NULL AUTO_INCREMENT'')"
    using format_type_suffixes [of ?v K0] frag
    by (simp add: column_def plain_flags_def)
  from 1 2 show ?thesis by simp
qed

lemma format_type_null: "type_code ctx = NULL \<Longrightarrow> format_type K ctx = Inl LookupError"
  by (simp add: format_type_def)

section \<open>DATETIME2\<close>

lemma read5:
  "read 5 (reader [a, b, c, d, e])
     = Inr ([a, b, c, d, e], \<lparr>buf = [a, b, c, d, e], cursor = 5\<rparr>)"
  by (simp add: read_def reader_def)

text \<open>
  Claim C6. The five bytes 99 A5 44 31 05 are the big-endian DATETIME2 value of
  2020-01-02 03:04:05 (19 A5 44 31 05 without the top bit); at scale 0
  \<open>unpack_type_datetime2\<close> returns exactly \<open>'2020-01-02 03:04:05'\<close> for both and has
  read the five bytes.
\<close>

theorem unpack_type_datetime2_known:
  assumes "length_col ctx - MAX_DATETIME_WIDTH K - 1 \<le> 0"
  shows "be_uint [0x99, 0xA5, 0x44, 0x31, 0x05] = datetime2_pack True 2020 1 2 3 4 5
       \<and> unpack_type_datetime2 K (reader [0x99, 0xA5, 0x44, 0x31, 0x05]) ctx
           = Inr (quote (lit ''2020-01-02 03:04:05''),
                  \<lparr>buf = [0x99, 0xA5, 0x44, 0x31, 0x05], cursor = 5\<rparr>)
       \<and> be_uint [0x19, 0xA5, 0x44, 0x31, 0x05] = datetime2_pack False 2020 1 2 3 4 5
       \<and> unpack_type_datetime2 K (reader [0x19, 0xA5, 0x44, 0x31, 0x05]) ctx
           = Inr (quote (lit ''2020-01-02 03:04:05''),
                  \<lparr>buf = [0x19, 0xA5, 0x44, 0x31, 0x05], cursor = 5\<rparr>)"
proof -
  have p1: "be_uint [0x99, 0xA5, 0x44, 0x31, 0x05] = datetime2_pack True 2020 1 2 3 4 5"
    by (simp add: be_uint_def datetime2_pack_def)
  have p0: "be_uint [0x19, 0xA5, 0x44, 0x31, 0x05] = datetime2_pack False 2020 1 2 3 4 5"
    by (simp add: be_uint_def datetime2_pack_def)
  have u1: "uint40 Big (reader [0x99, 0xA5, 0x44, 0x31, 0x05])
        = Inr (659902705925, \<lparr>buf = [0x99, 0xA5, 0x44, 0x31, 0x05], cursor = 5\<rparr>)"
    by (simp add: uint40_def read_uint_def read5 bytes_uint_def be_uint_def)
  have u0: "uint40 Big (reader [0x19, 0xA5, 0x44, 0x31, 0x05])
        = Inr (110146892037, \<lparr>buf = [0x19, 0xA5, 0x44, 0x31, 0x05], cursor = 5\<rparr>)"
    by (simp add: uint40_def read_uint_def read5 bytes_uint_def be_uint_def)
  have d1: "unpack_type_datetime2 K (reader [0x99, 0xA5, 0x44, 0x31, 0x05]) ctx
           = Inr (quote (lit ''2020-01-02 03:04:05''),
                  \<lparr>buf = [0x99, 0xA5, 0x44, 0x31, 0x05], cursor = 5\<rparr>)"
    using assms
    by (simp add: unpack_type_datetime2_def u1 Let_def quote_def zfill_def str_int_def
        digits10.simps drop_bit_eq_div)
  have d0: "unpack_type_datetime2 K (reader [0x19, 0xA5, 0x44, 0x31, 0x05]) ctx
           = Inr (quote (lit ''2020-01-02 03:04:05''),
                  \<lparr>buf = [0x19, 0xA5, 0x44, 0x31, 0x05], cursor = 5\<rparr>)"
    using assms
    by (simp add: unpack_type_datetime2_def u0 Let_def quote_def zfill_def str_int_def
        digits10.simps drop_bit_eq_div)
  from p1 d1 p0 d0 show ?thesis by simp
qed

theorem unpack_type_datetime2_known_witness:
  "length_col (column DATETIME2 19) - MAX_DATETIME_WIDTH K0 - 1 \<le> 0
   \<and> unpack_type_datetime2 K0 (reader [0x99, 0xA5, 0x44, 0x31, 0x05]) (column DATETIME2 19)
       = Inr (quote (lit ''2020-01-02 03:04:05''),
              \<lparr>buf = [0x99, 0xA5, 0x44, 0x31, 0x05], cursor = 5\<rparr>)"
proof -
  have h: "length_col (column DATETIME2 19) - MAX_DATETIME_WIDTH K0 - 1 \<le> 0"
    by (simp add: column_def K0_def)
  from unpack_type_datetime2_known [OF h] h show ?thesis by simp
qed

section \<open>ENUM\<close>

text \<open>
  Claim C4, at the input where the code departs from it: with the labels a, b, c and the
  stored ordinal 0 the offset is \<open>-1\<close>, which Python's indexing reads from the end, so the
  result is \<open>'c'\<close> and not the empty string. The ordinal 2 gives \<open>'b'\<close>
  (\<open>unpack_type_enum_two\<close>), and the ordinal is one byte wide below 256 labels, two from
  256 on (\<open>unpack_type_enum_width\<close>).
\<close>

theorem unpack_type_enum_ordinal_zero:
  "unpack_type_enum (reader [0x00]) ((column ENUM 1)\<lparr>labels := abc\<rparr>)
     = Inr (quote (lit ''c''), \<lparr>buf = [0x00], cursor = 1\<rparr>)"
  by (simp add: unpack_type_enum_def uint8_byte reader_def column_def abc_def py_index_def)

lemma unpack_type_enum_two:
  "unpack_type_enum (reader [0x02]) ((column ENUM 1)\<lparr>labels := abc\<rparr>)
     = Inr (quote (lit ''b''), \<lparr>buf = [0x02], cursor = 1\<rparr>)"
  by (simp add: unpack_type_enum_def uint8_byte reader_def column_def abc_def py_index_def)

lemma unpack_type_enum_width:
  "unpack_type_enum d ctx = Inr (v, d') \<Longrightarrow>
   cursor d' = cursor d + (if length (labels ctx) < 256 then 1 else 2)"
  by (auto simp add: unpack_type_enum_def uint8_def uint16_def Let_def
      split: sum.splits if_splits option.splits dest: read_uint_cursor)

lemma unpack_type_enum_ordinal:
  assumes "cursor d < length (buf d)" "length (labels ctx) < 256"
    "0 < uint (buf d ! cursor d)" "uint (buf d ! cursor d) \<le> int (length (labels ctx))"
  shows "unpack_type_enum d ctx
     = Inr (quote (labels ctx ! (nat (uint (buf d ! cursor d)) - 1)), d\<lparr>cursor := cursor d + 1\<rparr>)"
  using assms
  by (simp add: unpack_type_enum_def uint8_byte py_index_def Let_def nat_diff_distrib)

lemma nat_int_pred: "nat (int n - 1) = n - Suc 0"
  by (cases n) simp_all

lemma unpack_type_enum_zero_last:
  assumes "cursor d < length (buf d)" "length (labels ctx) < 256"
    "buf d ! cursor d = 0" "labels ctx \<noteq> []"
  shows "unpack_type_enum d ctx = Inr (quote (last (labels ctx)), d\<lparr>cursor := cursor d + 1\<rparr>)"
  using assms
  by (simp add: unpack_type_enum_def uint8_byte py_index_def Let_def last_conv_nth nat_int_pred)

section \<open>TIMESTAMP2\<close>

lemma digits_to_bytes_small:
  assumes "py_index DIGITS_TO_BYTES scale = Some n" "0 < scale" "n = 1 \<or> n = 2 \<or> n = 3"
  shows "scale \<le> 6 \<and> fraction_bytes scale = nat n"
proof -
  from assms(1,2) have "scale \<in> {1, 2, 3, 4, 5, 6, 7, 8, 9}"
    by (auto simp add: py_index_def DIGITS_TO_BYTES_def Let_def split: if_splits)
  with assms show ?thesis
    by (auto simp add: py_index_def DIGITS_TO_BYTES_def fraction_bytes_def Let_def)
qed

lemma digits_to_bytes_index:
  assumes "0 < scale" "scale \<le> 6"
  shows "\<exists>n. py_index DIGITS_TO_BYTES scale = Some n \<and> (n = 1 \<or> n = 2 \<or> n = 3)
             \<and> fraction_bytes scale = nat n"
proof -
  from assms have "scale \<in> {1, 2, 3, 4, 5, 6}" by auto
  then show ?thesis
    by (auto simp add: py_index_def DIGITS_TO_BYTES_def fraction_bytes_def Let_def)
qed

lemma unpack_type_timestamp2_cursor:
  assumes "unpack_type_timestamp2 K d ctx = Inr (v, d')"
  shows "cursor d' = cursor d + 4 + fraction_bytes (length_col ctx - MAX_DATETIME_WIDTH K - 1)
         \<and> buf d' = buf d"
proof -
  let ?scale = "length_col ctx - MAX_DATETIME_WIDTH K - 1"
  from assms obtain epoch d1 where e: "sint32 Big d = Inr (epoch, d1)"
    by (auto simp add: unpack_type_timestamp2_def split: sum.splits)
  then have c1: "cursor d1 = cursor d + 4 \<and> buf d1 = buf d"
    by (simp add: sint32_cursor)
  show ?thesis
  proof (cases "0 < ?scale")
    case False
    then have "fraction_bytes ?scale = 0" by (simp add: fraction_bytes_def)
    moreover from assms e False have "d' = d1"
      by (auto simp add: unpack_type_timestamp2_def Let_def split: sum.splits if_splits)
    ultimately show ?thesis using c1 by simp
  next
    case True
    from assms e True obtain n fr where
      n: "py_index DIGITS_TO_BYTES ?scale = Some n"
      and r: "(if n = 1 then uint8 Big d1 else if n = 2 then uint16 Big d1
               else if n = 3 then uint24 Big d1 else Inl ValueError) = Inr (fr, d')"
      by (auto simp add: unpack_type_timestamp2_def Let_def
          split: sum.splits if_splits option.splits)
    from r have n3: "n = 1 \<or> n = 2 \<or> n = 3" by (auto split: if_splits)
    have "cursor d' = cursor d1 + nat n \<and> buf d' = buf d1"
    proof -
      consider "n = 1" | "n = 2" | "n = 3" using n3 by blast
      then show ?thesis
      proof cases
        case 1
        with r have "uint8 Big d1 = Inr (fr, d')" by simp
        from uint8_cursor [OF this] 1 show ?thesis by simp
      next
        case 2
        with r have "uint16 Big d1 = Inr (fr, d')" by simp
        from uint16_cursor [OF this] 2 show ?thesis by simp
      next
        case 3
        with r have "uint24 Big d1 = Inr (fr, d')" by simp
        from uint24_cursor [OF this] 3 show ?thesis by simp
      qed
    qed
    with digits_to_bytes_small [OF n True n3] c1 show ?thesis by simp
  qed
qed

lemma unpack_type_timestamp2_unireg:
  "map_sum (\<lambda>e. e) snd (unpack_type_timestamp2 K d (ctx\<lparr>unireg_check := u\<rparr>))
     = map_sum (\<lambda>e. e) snd (unpack_type_timestamp2 K d ctx)"
  by (simp add: unpack_type_timestamp2_def Let_def split: sum.splits option.splits prod.splits)

lemma unpack_type_timestamp2_returns:
  assumes s6: "length_col ctx - MAX_DATETIME_WIDTH K - 1 \<le> 6"
    and len: "cursor d + 4 + fraction_bytes (length_col ctx - MAX_DATETIME_WIDTH K - 1)
                \<le> length (buf d)"
    and ft: "\<forall>t. \<exists>s. fromtimestamp K t = Inr s"
  shows "\<exists>v d'. unpack_type_timestamp2 K d ctx = Inr (v, d')"
proof -
  let ?scale = "length_col ctx - MAX_DATETIME_WIDTH K - 1"
  let ?d1 = "d\<lparr>cursor := cursor d + 4\<rparr>"
  from len have "cursor d + 4 \<le> length (buf d)" by simp
  from read_sint_enough [OF this] obtain epoch where
    e: "sint32 Big d = Inr (epoch, ?d1)" by (auto simp add: sint32_def)
  from ft obtain s where s: "(if epoch \<noteq> 0 then fromtimestamp K epoch else Inr zero_datetime) = Inr s"
    by (cases "epoch = 0") auto
  show ?thesis
  proof (cases "0 < ?scale")
    case False
    with e s show ?thesis by (simp add: unpack_type_timestamp2_def Let_def)
  next
    case True
    from digits_to_bytes_index [OF True s6] obtain n where
      n: "py_index DIGITS_TO_BYTES ?scale = Some n" and n3: "n = 1 \<or> n = 2 \<or> n = 3"
      and f: "fraction_bytes ?scale = nat n" by blast
    from len f have l: "cursor ?d1 + nat n \<le> length (buf ?d1)" by simp
    from read_uint_enough [OF l, of Big] obtain fr where
      "read_uint (nat n) Big ?d1 = Inr (fr, ?d1\<lparr>cursor := cursor ?d1 + nat n\<rparr>)" by blast
    with n3 have "\<exists>fr d2. (if n = 1 then uint8 Big ?d1 else if n = 2 then uint16 Big ?d1
               else if n = 3 then uint24 Big ?d1 else Inl ValueError) = Inr (fr, d2)"
      by (auto simp add: uint8_def uint16_def uint24_def)
    then obtain fr2 d2 where "(if n = 1 then uint8 Big ?d1 else if n = 2 then uint16 Big ?d1
               else if n = 3 then uint24 Big ?d1 else Inl ValueError) = Inr (fr2, d2)" by blast
    with e s n True show ?thesis
      by (simp add: unpack_type_timestamp2_def Let_def)
  qed
qed

text \<open>
  Claim C5. \<open>unpack_type_timestamp2\<close> advances the cursor by 4 bytes plus the fraction
  byte count of the column's scale whenever it returns; what it leaves of the reader (or
  the fact that it raises) is the same for every value of \<open>unireg_check\<close>, which only
  selects the text; and it does return when the scale is at most 6, the bytes are there
  and the calendar conversion succeeds.
\<close>

theorem unpack_type_timestamp2_consumption:
  "(\<forall>v d'. unpack_type_timestamp2 K d ctx = Inr (v, d')
       \<longrightarrow> cursor d' = cursor d + 4
                    + fraction_bytes (length_col ctx - MAX_DATETIME_WIDTH K - 1)
           \<and> buf d' = buf d)
   \<and> (\<forall>u. map_sum (\<lambda>e. e) snd (unpack_type_timestamp2 K d (ctx\<lparr>unireg_check := u\<rparr>))
           = map_sum (\<lambda>e. e) snd (unpack_type_timestamp2 K d ctx))
   \<and> (length_col ctx - MAX_DATETIME_WIDTH K - 1 \<le> 6
       \<and> cursor d + 4 + fraction_bytes (length_col ctx - MAX_DATETIME_WIDTH K - 1)
            \<le> length (buf d)
       \<and> (\<forall>t. \<exists>s. fromtimestamp K t = Inr s)
       \<longrightarrow> (\<exists>v d'. unpack_type_timestamp2 K d ctx = Inr (v, d')))"
  using unpack_type_timestamp2_cursor [of K d ctx]
    unpack_type_timestamp2_unireg [where K = K and d = d and ctx = ctx]
    unpack_type_timestamp2_returns [where K = K and d = d and ctx = ctx]
  by blast

theorem unpack_type_timestamp2_consumption_witness:
  "\<exists>v d'. unpack_type_timestamp2 K0 (reader [0, 0, 0, 1, 5]) (column TIMESTAMP2 21) = Inr (v, d')
          \<and> cursor d' = 5"
proof -
  let ?d = "reader [0, 0, 0, 1, 5]"
  let ?c = "column TIMESTAMP2 21"
  note t = unpack_type_timestamp2_consumption [of K0 ?d ?c]
  have s: "length_col ?c - MAX_DATETIME_WIDTH K0 - 1 = 1"
    by (simp add: column_def K0_def)
  have f: "fraction_bytes 1 = 1" by (simp add: fraction_bytes_def)
  have "\<forall>t. \<exists>s. fromtimestamp K0 t = Inr s" by (simp add: K0_def)
  moreover have "cursor ?d + 4 + fraction_bytes 1 \<le> length (buf ?d)"
    by (simp add: reader_def f)
  ultimately obtain v d' where r: "unpack_type_timestamp2 K0 ?d ?c = Inr (v, d')"
    using t s by auto
  with t s f have "cursor d' = 5" by (simp add: reader_def)
  with r show ?thesis by blast
qed

lemma unpack_type_timestamp2_sample:
  "unpack_type_timestamp2 K0 (reader [0, 0, 0, 1, 5]) (column TIMESTAMP2 21)
    = Inr (quote (lit ''1970-01-01 00:00:01.5''), \<lparr>buf = [0, 0, 0, 1, 5], cursor = 5\<rparr>)"
  by (simp add: unpack_type_timestamp2_def K0_def column_def reader_def sint32_def read_sint_def
    read_def uint8_def read_uint_def bytes_uint_def be_uint_def twos_def py_index_def DIGITS_TO_BYTES_def
    Let_def zfill_def str_int_def digits10.simps quote_def)

section \<open>The dispatch of \<open>unpack_default\<close>\<close>

lemma unpack_default_dispatch_not_implemented:
  assumes "type_code ctx \<in> {TINY_BLOB, MEDIUM_BLOB, LONG_BLOB, BLOB, GEOMETRY, DATE}"
    and "unireg_check ctx \<noteq> BLOB_FIELD"
  shows "unpack_default_dispatch K d ctx = (Inl LookupError, ctx)"
  using assms
  by (auto simp add: unpack_default_dispatch_def unpack_type_long_blob_def
      unpack_type_tiny_blob_def unpack_type_medium_blob_def unpack_type_blob_def
      unpack_type_geometry_def unpack_type_date_def)

lemma null_bit_test:
  "(uint (b::byte) AND 2 ^ k = 0) = (\<not> bit b k)"
proof -
  have "(uint b AND 2 ^ k = 0) = (\<not> bit (uint b) k)"
    by (rule and_exp_eq_0_iff_not_bit)
  then show ?thesis by (auto simp add: bit_uint_iff dest: bit_imp_le_length)
qed

text \<open>
  Claim C7. For a blob-family or geometry type code and for the pre-4.1 DATE, whenever
  the dispatch is reached \<open>unpack_default\<close> raises LookupError: the routine's
  NotImplementedError is raised again as a lookup failure, and nothing is returned.
\<close>

theorem unpack_default_not_implemented:
  assumes "dispatch_reached ctx"
    and "type_code ctx \<in> {TINY_BLOB, MEDIUM_BLOB, LONG_BLOB, BLOB, GEOMETRY, DATE}"
  shows "fst (unpack_default K d ctx) = Inl LookupError"
proof (cases "flag_MAYBE_NULL (flags ctx)")
  case False
  with assms show ?thesis
    by (simp add: unpack_default_def dispatch_reached_def unpack_default_dispatch_not_implemented)
next
  case True
  with assms(1) obtain b where b: "py_index (null_map ctx) (null_bit ctx div 8) = Some b"
    and nb: "\<not> bit b (nat (null_bit ctx mod 8))"
    by (auto simp add: dispatch_reached_def null_map_bit_def split: option.splits)
  let ?c' = "ctx\<lparr>null_bit := null_bit ctx + 1\<rparr>"
  from assms have "unpack_default_dispatch K d ?c' = (Inl LookupError, ?c')"
    by (intro unpack_default_dispatch_not_implemented) (simp_all add: dispatch_reached_def)
  with True assms(1) b nb show ?thesis
    by (simp add: unpack_default_def dispatch_reached_def Let_def null_bit_test)
qed

theorem unpack_default_not_implemented_witness:
  "dispatch_reached (column GEOMETRY 0)
   \<and> dispatch_reached ((column BLOB 0)\<lparr>flags := plain_flags\<lparr>flag_MAYBE_NULL := True\<rparr>,
                                         null_map := [0x02]\<rparr>)
   \<and> fst (unpack_default K0 (reader []) (column GEOMETRY 0)) = Inl LookupError
   \<and> fst (unpack_default K0 (reader [])
             ((column BLOB 0)\<lparr>flags := plain_flags\<lparr>flag_MAYBE_NULL := True\<rparr>,
                               null_map := [0x02]\<rparr>)) = Inl LookupError"
proof -
  let ?b = "(column BLOB 0)\<lparr>flags := plain_flags\<lparr>flag_MAYBE_NULL := True\<rparr>,
                             null_map := [0x02]\<rparr>"
  have g: "dispatch_reached (column GEOMETRY 0)"
    by (simp add: dispatch_reached_def column_def plain_flags_def)
  have b: "dispatch_reached ?b"
    by (simp add: dispatch_reached_def column_def plain_flags_def null_map_bit_def py_index_def)
  have tg: "type_code (column GEOMETRY 0) \<in> {TINY_BLOB, MEDIUM_BLOB, LONG_BLOB, BLOB, GEOMETRY, DATE}"
    by (simp add: column_def)
  have tb: "type_code ?b \<in> {TINY_BLOB, MEDIUM_BLOB, LONG_BLOB, BLOB, GEOMETRY, DATE}"
    by (simp add: column_def)
  from unpack_default_not_implemented [OF g tg, of K0 "reader []"]
    unpack_default_not_implemented [OF b tb, of K0 "reader []"] g b
  show ?thesis by simp
qed

section \<open>The null-bitmap protocol\<close>

text \<open>
  Claim C2. A nullable column that reaches the null-bit check (no-stored-default flag
  clear, not auto-increment), whose null-map bit at \<open>null_bit\<close> is set and whose
  \<open>unireg_check\<close> is not the blob marker, yields exactly \<open>NULL\<close>; the reader is returned
  as it was, and \<open>null_bit\<close> has advanced by one.
\<close>

theorem unpack_default_null:
  assumes "flag_MAYBE_NULL (flags ctx)"
    and "\<not> flag_NO_DEFAULT (flags ctx)"
    and "unireg_check ctx \<noteq> NEXT_NUMBER"
    and "null_map_bit ctx = Some True"
    and "unireg_check ctx \<noteq> BLOB_FIELD"
  shows "unpack_default K d ctx
           = (Inr (Some (lit ''NULL''), d), ctx\<lparr>null_bit := null_bit ctx + 1\<rparr>)"
proof -
  from assms(4) obtain b where b: "py_index (null_map ctx) (null_bit ctx div 8) = Some b"
    and nb: "bit b (nat (null_bit ctx mod 8))"
    by (auto simp add: null_map_bit_def split: option.splits)
  with assms show ?thesis
    by (simp add: unpack_default_def Let_def null_bit_test)
qed

theorem unpack_default_null_witness:
  "unpack_default K0 (reader [0x2A, 0, 0, 0])
     ((column LONG 11)\<lparr>flags := plain_flags\<lparr>flag_MAYBE_NULL := True\<rparr>,
                        null_bit := 1, null_map := [0x02]\<rparr>)
   = (Inr (Some (lit ''NULL''), reader [0x2A, 0, 0, 0]),
      (column LONG 11)\<lparr>flags := plain_flags\<lparr>flag_MAYBE_NULL := True\<rparr>,
                        null_bit := 2, null_map := [0x02]\<rparr>)"
proof -
  let ?c = "(column LONG 11)\<lparr>flags := plain_flags\<lparr>flag_MAYBE_NULL := True\<rparr>,
                        null_bit := 1, null_map := [0x02]\<rparr>"
  have "null_map_bit ?c = Some True"
    by (simp add: null_map_bit_def column_def py_index_def)
  from unpack_default_null [OF _ _ _ this, of K0 "reader [0x2A, 0, 0, 0]"]
  show ?thesis by (simp add: column_def plain_flags_def)
qed

text \<open>
  Claim C1 says that \<open>null_bit\<close> advances by one for every nullable column, also when
  the column returns early. It does not: a nullable column with the no-stored-default
  flag set returns before the null-bit block, and \<open>null_bit\<close> stays.
\<close>

theorem unpack_default_null_bit_counterexample:
  "flag_MAYBE_NULL (flags ((column LONG 11)\<lparr>flags := plain_flags\<lparr>flag_MAYBE_NULL := True,
                                                           flag_NO_DEFAULT := True\<rparr>,
                                          null_map := [0x00]\<rparr>))
   \<and> null_bit (snd (unpack_default K0 (reader [0x2A, 0, 0, 0])
         ((column LONG 11)\<lparr>flags := plain_flags\<lparr>flag_MAYBE_NULL := True,
                                                flag_NO_DEFAULT := True\<rparr>,
                            null_map := [0x00]\<rparr>)))
     \<noteq> null_bit ((column LONG 11)\<lparr>flags := plain_flags\<lparr>flag_MAYBE_NULL := True,
                                                     flag_NO_DEFAULT := True\<rparr>,
                                    null_map := [0x00]\<rparr>) + 1"
  by (simp add: unpack_default_def column_def plain_flags_def)

text \<open>
  Claim C1 as amended. A column with the no-stored-default flag set or marked
  auto-increment returns no default and leaves the reader and the context, \<open>null_bit\<close>
  included, as they were, nullable or not. Every other column whose null-map byte is
  there leaves the context with \<open>null_bit\<close> advanced by exactly 1 if it is nullable and by
  0 otherwise, whatever the outcome (\<open>NULL\<close>, no default, a literal or an error of the
  dispatch). A nullable column whose null-map byte is missing raises IndexError.
\<close>

theorem unpack_default_null_bit:
  "(flag_NO_DEFAULT (flags ctx) \<or> unireg_check ctx = NEXT_NUMBER
      \<longrightarrow> unpack_default K d ctx = (Inr (None, d), ctx))
   \<and> (\<not> flag_NO_DEFAULT (flags ctx) \<and> unireg_check ctx \<noteq> NEXT_NUMBER
        \<and> (flag_MAYBE_NULL (flags ctx) \<longrightarrow> null_map_bit ctx \<noteq> None)
      \<longrightarrow> snd (unpack_default K d ctx)
            = ctx\<lparr>null_bit := null_bit ctx + (if flag_MAYBE_NULL (flags ctx) then 1 else 0)\<rparr>)
   \<and> (\<not> flag_NO_DEFAULT (flags ctx) \<and> unireg_check ctx \<noteq> NEXT_NUMBER
        \<and> flag_MAYBE_NULL (flags ctx) \<and> null_map_bit ctx = None
      \<longrightarrow> unpack_default K d ctx = (Inl IndexError, ctx))"
proof (intro conjI impI)
  assume "flag_NO_DEFAULT (flags ctx) \<or> unireg_check ctx = NEXT_NUMBER"
  then show "unpack_default K d ctx = (Inr (None, d), ctx)"
    by (auto simp add: unpack_default_def)
next
  have disp: "snd (unpack_default_dispatch K d c) = c" for c
    by (simp add: unpack_default_dispatch_def split: option.splits sum.splits prod.splits)
  assume h: "\<not> flag_NO_DEFAULT (flags ctx) \<and> unireg_check ctx \<noteq> NEXT_NUMBER
        \<and> (flag_MAYBE_NULL (flags ctx) \<longrightarrow> null_map_bit ctx \<noteq> None)"
  show "snd (unpack_default K d ctx)
            = ctx\<lparr>null_bit := null_bit ctx + (if flag_MAYBE_NULL (flags ctx) then 1 else 0)\<rparr>"
  proof (cases "flag_MAYBE_NULL (flags ctx)")
    case False
    with h show ?thesis by (simp add: unpack_default_def disp)
  next
    case True
    with h obtain b where "py_index (null_map ctx) (null_bit ctx div 8) = Some b"
      by (auto simp add: null_map_bit_def split: option.splits)
    with h True show ?thesis by (simp add: unpack_default_def Let_def disp)
  qed
next
  assume "\<not> flag_NO_DEFAULT (flags ctx) \<and> unireg_check ctx \<noteq> NEXT_NUMBER
        \<and> flag_MAYBE_NULL (flags ctx) \<and> null_map_bit ctx = None"
  then show "unpack_default K d ctx = (Inl IndexError, ctx)"
    by (auto simp add: unpack_default_def null_map_bit_def Let_def split: option.splits)
qed

theorem unpack_default_null_bit_witness:
  "snd (unpack_default K0 (reader [0x2A, 0, 0, 0])
          ((column LONG 11)\<lparr>flags := plain_flags\<lparr>flag_MAYBE_NULL := True\<rparr>,
                             null_map := [0x00]\<rparr>))
     = (column LONG 11)\<lparr>flags := plain_flags\<lparr>flag_MAYBE_NULL := True\<rparr>,
                         null_bit := 1, null_map := [0x00]\<rparr>
   \<and> unpack_default K0 (reader [0x2A, 0, 0, 0])
         ((column LONG 11)\<lparr>flags := plain_flags\<lparr>flag_MAYBE_NULL := True\<rparr>,
                            unireg_check := NEXT_NUMBER\<rparr>)
     = (Inr (None, reader [0x2A, 0, 0, 0]),
        (column LONG 11)\<lparr>flags := plain_flags\<lparr>flag_MAYBE_NULL := True\<rparr>,
                           unireg_check := NEXT_NUMBER\<rparr>)
   \<and> unpack_default K0 (reader [0x2A, 0, 0, 0])
         ((column LONG 11)\<lparr>flags := plain_flags\<lparr>flag_MAYBE_NULL := True\<rparr>, null_bit := 8,
                            null_map := [0x00]\<rparr>)
     = (Inl IndexError,
        (column LONG 11)\<lparr>flags := plain_flags\<lparr>flag_MAYBE_NULL := True\<rparr>, null_bit := 8,
                           null_map := [0x00]\<rparr>)"
proof -
  let ?d = "reader [0x2A, 0, 0, 0]"
  let ?n = "(column LONG 11)\<lparr>flags := plain_flags\<lparr>flag_MAYBE_NULL := True\<rparr>,
                              null_map := [0x00]\<rparr>"
  let ?a = "(column LONG 11)\<lparr>flags := plain_flags\<lparr>flag_MAYBE_NULL := True\<rparr>,
                              unireg_check := NEXT_NUMBER\<rparr>"
  let ?x = "(column LONG 11)\<lparr>flags := plain_flags\<lparr>flag_MAYBE_NULL := True\<rparr>, null_bit := 8,
                              null_map := [0x00]\<rparr>"
  have bn: "null_map_bit ?n \<noteq> None"
    by (simp add: null_map_bit_def column_def py_index_def)
  have bx: "null_map_bit ?x = None"
    by (simp add: null_map_bit_def column_def py_index_def)
  have 1: "snd (unpack_default K0 ?d ?n) = ?n\<lparr>null_bit := 1\<rparr>"
    using unpack_default_null_bit [of ?n K0 ?d] bn
    by (simp add: column_def plain_flags_def)
  have 2: "unpack_default K0 ?d ?a = (Inr (None, ?d), ?a)"
    using unpack_default_null_bit [of ?a K0 ?d]
    by (simp add: column_def)
  have 3: "unpack_default K0 ?d ?x = (Inl IndexError, ?x)"
    using unpack_default_null_bit [of ?x K0 ?d] bx
    by (simp add: column_def plain_flags_def)
  from 1 2 3 show ?thesis by (simp add: column_def)
qed

section \<open>String types with the binary charset\<close>

lemma escape_nul_no_nul: "0 \<notin> set (escape_nul bs)"
  by (induction bs) (auto simp add: escape_nul_def)

lemma unpack_type_string_binary:
  assumes "charset_name (charset ctx) = lit ''binary''"
    and "read (length_col ctx) d = Inr (data, d')"
  shows "unpack_type_string K d ctx
           = Inr (quote (rstrip 32 (decode_ascii_replace (escape_nul data))), d')"
  using assms by (simp add: unpack_type_string_def)

lemma unpack_type_varchar_binary:
  assumes "charset_name (charset ctx) = lit ''binary''"
    and "(if length_col ctx < 256 then uint8 Little d else uint16 Little d) = Inr (n, d1)"
    and "read n d1 = Inr (data, d2)"
  shows "unpack_type_varchar K d ctx
           = Inr (quote (rstrip 32 (decode_ascii_replace (escape_nul data))), d2)"
  using assms by (simp add: unpack_type_varchar_def)

lemma unpack_type_var_string_any_charset:
  assumes "read (length_col ctx) d = Inr (data, d')"
  shows "unpack_type_var_string K d ctx
           = (case py_decode K (pycharset (charset ctx)) data of
                Inl err \<Rightarrow> Inl err
              | Inr s \<Rightarrow> Inr (quote (rstrip 32 s), d'))"
  using assms by (simp add: unpack_type_var_string_def)

text \<open>
  Claim C8, at the input where the code departs from it: for a binary-charset column
  holding the bytes \<open>a\<close>, NUL, the CHAR and VARCHAR routines escape the NUL byte to
  backslash, zero (code points 92, 48), while the 4.1 VAR_STRING routine has no branch for
  the binary charset and passes the NUL byte through its charset decode unescaped.
\<close>

theorem unpack_type_var_string_binary_nul:
  "charset_name (charset ((column VAR_STRING 2)\<lparr>charset := binary\<rparr>)) = lit ''binary''
   \<and> unpack_type_var_string K0 (reader [0x61, 0x00]) ((column VAR_STRING 2)\<lparr>charset := binary\<rparr>)
       = Inr ([39, 97, 0, 39], \<lparr>buf = [0x61, 0x00], cursor = 2\<rparr>)
   \<and> unpack_type_string K0 (reader [0x61, 0x00]) ((column STRING 2)\<lparr>charset := binary\<rparr>)
       = Inr ([39, 97, 92, 48, 39], \<lparr>buf = [0x61, 0x00], cursor = 2\<rparr>)
   \<and> unpack_type_varchar K0 (reader [0x02, 0x61, 0x00]) ((column VARCHAR 2)\<lparr>charset := binary\<rparr>)
       = Inr ([39, 97, 92, 48, 39], \<lparr>buf = [0x02, 0x61, 0x00], cursor = 3\<rparr>)"
  by (simp add: unpack_type_var_string_def unpack_type_string_def unpack_type_varchar_def
      column_def binary_def reader_def read_def K0_def decode_ascii_def decode_ascii_replace_def
      escape_nul_def rstrip_def quote_def uint8_def read_uint_def bytes_uint_def be_uint_def)

section \<open>NEWDECIMAL\<close>

lemma replicate_pad:
  "replicate 3 x = [x, x, x]" "replicate 2 x = [x, x]" "replicate (Suc 0) x = [x]"
  by (simp_all add: numeral_3_eq_3 numeral_2_eq_2)

lemma decimal_column_18_0:
  "f_decimals K0 (flags (decimal_column 18 0)) = 0" "length_col (decimal_column 18 0) = 19"
  by (simp_all add: f_decimals_def decimal_column_def column_def plain_flags_def K0_def)

lemma decimal_column_10_0:
  "f_decimals K0 (flags (decimal_column 10 0)) = 0" "length_col (decimal_column 10 0) = 11"
  by (simp_all add: f_decimals_def decimal_column_def column_def plain_flags_def K0_def)

lemma decode_decimal_two_groups:
  "decode_decimal [0x00, 0, 0, 1, 0, 0, 0, 1] False = lit ''11''"
  by (simp add: decode_decimal_def twos_def be_uint_def str_int_def digits10.simps Let_def)

lemma decode_decimal_leading_group:
  "decode_decimal [0x01, 0x0D, 0xFB, 0x38, 0xD2] False = lit ''17693496210''"
  by (simp add: decode_decimal_def slice_to_def slice_from_def py_bound_def twos_def
      be_uint_def str_int_def digits10.simps Let_def replicate_pad)

text \<open>
  Claim C3, at an input where the code departs from it. For DECIMAL(18,0) and the value
  1000000001 the format stores the two groups 000000001 and 000000001 as
  80 00 00 01 00 00 00 01. The decoder joins the groups' numbers without padding the
  inner group to nine digits and returns \<open>'11'\<close>, not the digit string 1000000001.
\<close>

theorem unpack_type_newdecimal_two_groups:
  "newdecimal_encode False [0,0,0,0,0,0,0,0,1, 0,0,0,0,0,0,0,0,1] []
     = [0x80, 0, 0, 1, 0, 0, 0, 1]
   \<and> digit_string False [0,0,0,0,0,0,0,0,1, 0,0,0,0,0,0,0,0,1] [] = lit ''1000000001''
   \<and> unpack_type_newdecimal K0 (reader [0x80, 0, 0, 1, 0, 0, 0, 1]) (decimal_column 18 0)
       = Inr (quote (lit ''11''), \<lparr>buf = [0x80, 0, 0, 1, 0, 0, 0, 1], cursor = 8\<rparr>)"
proof -
  have e: "newdecimal_encode False [0,0,0,0,0,0,0,0,1, 0,0,0,0,0,0,0,0,1] []
             = [0x80, 0, 0, 1, 0, 0, 0, 1]"
    by code_simp
  have t: "digit_string False [0,0,0,0,0,0,0,0,1, 0,0,0,0,0,0,0,0,1] [] = lit ''1000000001''"
    by (simp add: digit_string_def)
  have r: "read 8 (reader [0x80, 0, 0, 1, 0, 0, 0, 1])
             = Inr ([0x80, 0, 0, 1, 0, 0, 0, 1], \<lparr>buf = [0x80, 0, 0, 1, 0, 0, 0, 1], cursor = 8\<rparr>)"
    by (simp add: read_def reader_def)
  have d: "unpack_type_newdecimal K0 (reader [0x80, 0, 0, 1, 0, 0, 0, 1]) (decimal_column 18 0)
       = Inr (quote (lit ''11''), \<lparr>buf = [0x80, 0, 0, 1, 0, 0, 0, 1], cursor = 8\<rparr>)"
    by (simp add: unpack_type_newdecimal_def decimal_column_18_0 r decode_decimal_two_groups
        Let_def DIGITS_TO_BYTES_def slice_to_def py_bound_def lstrip_def quote_def)
  from e t d show ?thesis by simp
qed

text \<open>
  The same for a leading group shorter than nine digits: DECIMAL(10,0) and 1234567890
  are stored as 81 0D FB 38 D2 (one byte for the digit 1, four for 234567890). The
  decoder pads the last byte instead of the first and returns \<open>'17693496210'\<close>.
\<close>

lemma unpack_type_newdecimal_leading_group:
  "newdecimal_encode False [1,2,3,4,5,6,7,8,9,0] [] = [0x81, 0x0D, 0xFB, 0x38, 0xD2]
   \<and> digit_string False [1,2,3,4,5,6,7,8,9,0] [] = lit ''1234567890''
   \<and> unpack_type_newdecimal K0 (reader [0x81, 0x0D, 0xFB, 0x38, 0xD2]) (decimal_column 10 0)
       = Inr (quote (lit ''17693496210''),
              \<lparr>buf = [0x81, 0x0D, 0xFB, 0x38, 0xD2], cursor = 5\<rparr>)"
proof -
  have e: "newdecimal_encode False [1,2,3,4,5,6,7,8,9,0] [] = [0x81, 0x0D, 0xFB, 0x38, 0xD2]"
    by code_simp
  have t: "digit_string False [1,2,3,4,5,6,7,8,9,0] [] = lit ''1234567890''"
    by (simp add: digit_string_def)
  have r: "read 5 (reader [0x81, 0x0D, 0xFB, 0x38, 0xD2])
             = Inr ([0x81, 0x0D, 0xFB, 0x38, 0xD2],
                    \<lparr>buf = [0x81, 0x0D, 0xFB, 0x38, 0xD2], cursor = 5\<rparr>)"
    by (simp add: read_def reader_def)
  have d: "unpack_type_newdecimal K0 (reader [0x81, 0x0D, 0xFB, 0x38, 0xD2])
             (decimal_column 10 0)
       = Inr (quote (lit ''17693496210''),
              \<lparr>buf = [0x81, 0x0D, 0xFB, 0x38, 0xD2], cursor = 5\<rparr>)"
    by (simp add: unpack_type_newdecimal_def decimal_column_10_0 r decode_decimal_leading_group
        Let_def DIGITS_TO_BYTES_def slice_to_def py_bound_def lstrip_def quote_def)
  from e t d show ?thesis by simp
qed

end
